theory Spec2Isabelle
  imports Complex_Main "HOL-Library.AList"
begin

section \<open>Python values, as \<open>response.json()\<close> produces them\<close>

text \<open>
  The fields of \<open>TractionTester\<close> and the bodies of the responses hold Python values
  decoded from JSON: \<open>None\<close>, booleans, integers, floats, strings, lists and
  dictionaries with string keys. A string is the list of its bytes; a dictionary is the
  list of its items in insertion order and a lookup takes the first item with the key.
  A float is the rational it denotes (the non-finite floats that Python's decoder accepts
  beyond JSON are not represented).
\<close>

datatype pyval =
    PNone
  | PBool bool
  | PInt int
  | PFloat rat
  | PStr string
  | PList "pyval list"
  | PDict "(string \<times> pyval) list"

text \<open>The exceptions the program can meet; all of them derive from \<open>Exception\<close>.\<close>

datatype exn =
    TransportError
  | JSONDecodeError
  | AttributeError
  | TypeError
  | ValueError

text \<open>Python's truth value of an object, as \<open>if x:\<close>, \<open>not x\<close>, \<open>and\<close> and \<open>or\<close> take it.\<close>

fun truthy :: "pyval \<Rightarrow> bool" where
  "truthy PNone = False"
| "truthy (PBool b) = b"
| "truthy (PInt i) = (i \<noteq> 0)"
| "truthy (PFloat q) = (q \<noteq> 0)"
| "truthy (PStr s) = (s \<noteq> [])"
| "truthy (PList xs) = (xs \<noteq> [])"
| "truthy (PDict kvs) = (kvs \<noteq> [])"

text \<open>
  \<open>obj.get(key, default)\<close>: only a dictionary has the method, every other object
  raises \<open>AttributeError\<close>.
\<close>

fun py_get :: "pyval \<Rightarrow> string \<Rightarrow> pyval \<Rightarrow> exn + pyval" where
  "py_get (PDict kvs) k d = Inr (case map_of kvs k of Some v \<Rightarrow> v | None \<Rightarrow> d)"
| "py_get _ k d = Inl AttributeError"

text \<open>
  \<open>len(obj)\<close>: strings, lists and dictionaries are sized, the rest raise \<open>TypeError\<close>
  (the program only logs the number).
\<close>

fun py_len :: "pyval \<Rightarrow> exn + nat" where
  "py_len (PStr s) = Inr (length s)"
| "py_len (PList xs) = Inr (length xs)"
| "py_len (PDict kvs) = Inr (length (remdups (map fst kvs)))"
| "py_len _ = Inl TypeError"

text \<open>
  \<open>a == b\<close>: booleans, integers and floats compare by their numeric value
  (\<open>True == 1\<close>), strings and lists componentwise, dictionaries as mappings, and objects
  of different kinds are unequal. It never raises on these values.
\<close>

fun py_num :: "pyval \<Rightarrow> rat option" where
  "py_num (PBool b) = Some (if b then 1 else 0)"
| "py_num (PInt i) = Some (of_int i)"
| "py_num (PFloat q) = Some q"
| "py_num _ = None"

fun py_eq :: "pyval \<Rightarrow> pyval \<Rightarrow> bool" where
  "py_eq (PList xs) b = (case b of PList ys \<Rightarrow> list_all2 py_eq xs ys | _ \<Rightarrow> False)"
| "py_eq (PDict kvs) b =
     (case b of
        PDict kws \<Rightarrow>
          set (map fst kvs) = set (map fst kws) \<and>
          list_all (\<lambda>kv. case map_of kws (fst kv) of
                             Some w \<Rightarrow> map_of kvs (fst kv) \<noteq> Some (snd kv) \<or> py_eq (snd kv) w
                           | None \<Rightarrow> False) kvs
      | _ \<Rightarrow> False)"
| "py_eq (PStr s) b = (b = PStr s)"
| "py_eq PNone b = (b = PNone)"
| "py_eq a b = (case (py_num a, py_num b) of (Some x, Some y) \<Rightarrow> x = y | _ \<Rightarrow> False)"

text \<open>\<open>str(n)\<close> of an integer: its decimal digits, with a minus sign when negative.\<close>

fun digits :: "nat \<Rightarrow> string" where
  "digits n = (if n < 10 then [char_of (48 + n)] else digits (n div 10) @ [char_of (48 + n mod 10)])"

definition str_int :: "int \<Rightarrow> string" where
  "str_int i = (if i < 0 then CHR ''-'' # digits (nat (- i)) else digits (nat i))"

section \<open>Requests, responses and the remote service\<close>

text \<open>
  An f-string is the list of its literal pieces and of the values it formats, in order
  (\<open>f'/wallet/did/public?did={self.created_did}'\<close> is a literal followed by a value).
\<close>

datatype piece = Lit string | Fmt pyval

datatype verb = GET | POST | PUT | OTHER

text \<open>
  What \<open>self.session\<close> is handed: the method, the URL, the \<open>json=\<close> body
  (\<open>session.get\<close> takes none) and the \<open>Authorization\<close> header when there is one.
\<close>

record request =
  verb_of :: verb
  url :: "piece list"
  json_body :: "pyval option"
  authorization :: "(piece list) option"

text \<open>
  A \<open>requests.Response\<close>: its status and its decoded body, \<open>None\<close> when the body is
  not JSON, in which case \<open>response.json()\<close> raises.
\<close>

record response =
  status_code :: int
  content :: "pyval option"

datatype reply = Fails | Returns response

text \<open>
  The remote service answers a request knowing the requests it has received before:
  any run of the program against any service is a run against one such function. Every
  call on the session ends, with a response or with an exception (the program sets no
  timeout; a call that never ends is not modelled).
\<close>

type_synonym server = "request list \<Rightarrow> request \<Rightarrow> reply"

definition json_of :: "response \<Rightarrow> exn + pyval" where
  "json_of r = (case content r of None \<Rightarrow> Inl JSONDecodeError | Some v \<Rightarrow> Inr v)"

section \<open>The tester and its state\<close>

text \<open>
  The instance fields of \<open>TractionTester\<close>, and three observations of a run: the
  requests handed to \<open>self.session\<close>, the numbers of the step banners
  (\<open>=== STEP n: ... ===\<close>, the first statement of each step) and the lines of the final
  summary. The other log lines change nothing in the control flow and are not recorded;
  where evaluating a log line's argument can raise, the evaluation is modelled. Printing
  a line is taken not to fail, and \<open>debug\<close> only adds lines.
\<close>

record tester =
  base_url :: string
  debug :: bool
  tenant_token :: pyval
  reservation_id :: pyval
  reservation_pwd :: pyval
  created_did :: pyval
  sent :: "request list"
  entered :: "nat list"
  report :: "string list"

text \<open>A method of the tester returns a value or raises, and leaves a new state.\<close>

type_synonym 'a prog = "tester \<Rightarrow> (exn + 'a) \<times> tester"

definition ret :: "'a \<Rightarrow> 'a prog" where
  "ret x t = (Inr x, t)"

definition raise :: "exn \<Rightarrow> 'a prog" where
  "raise e t = (Inl e, t)"

definition lift :: "exn + 'a \<Rightarrow> 'a prog" where
  "lift r t = (r, t)"

definition bind :: "'a prog \<Rightarrow> ('a \<Rightarrow> 'b prog) \<Rightarrow> 'b prog" where
  "bind m f t = (case m t of (Inl e, t') \<Rightarrow> (Inl e, t') | (Inr x, t') \<Rightarrow> f x t')"

text \<open>\<open>try: m  except Exception as e: h e\<close>\<close>

definition try_except :: "'a prog \<Rightarrow> (exn \<Rightarrow> 'a prog) \<Rightarrow> 'a prog" where
  "try_except m h t = (case m t of (Inl e, t') \<Rightarrow> h e t' | (Inr x, t') \<Rightarrow> (Inr x, t'))"

definition banner :: "nat \<Rightarrow> unit prog" where
  "banner n t = (Inr (), t\<lparr>entered := entered t @ [n]\<rparr>)"

definition rstrip :: "char \<Rightarrow> string \<Rightarrow> string" where
  "rstrip c s = rev (dropWhile (\<lambda>x. x = c) (rev s))"

definition init :: "string \<Rightarrow> bool \<Rightarrow> tester" where
  "init b d =
     \<lparr>base_url = rstrip CHR ''/'' b, debug = d, tenant_token = PNone, reservation_id = PNone,
      reservation_pwd = PNone, created_did = PNone, sent = [], entered = [], report = []\<rparr>"

text \<open>
  \<open>make_request\<close> prepares the call on \<open>self.session\<close>: the URL is the base URL
  followed by the endpoint, the bearer header is added when \<open>use_auth\<close> is set and the
  token is truthy, and \<open>session.get\<close> is given no body.
\<close>

definition request_of :: "verb \<Rightarrow> piece list \<Rightarrow> pyval option \<Rightarrow> bool \<Rightarrow> tester \<Rightarrow> request" where
  "request_of method endpoint payload use_auth t =
     \<lparr>verb_of = method,
      url = Lit (base_url t) # endpoint,
      json_body = (if method = GET then None else payload),
      authorization = (if use_auth \<and> truthy (tenant_token t)
                       then Some [Lit ''Bearer '', Fmt (tenant_token t)] else None)\<rparr>"

text \<open>
  An unsupported method raises \<open>ValueError\<close> before anything is sent; what the session
  raises is logged and raised again.
\<close>

definition make_request :: "server \<Rightarrow> verb \<Rightarrow> piece list \<Rightarrow> pyval option \<Rightarrow> bool \<Rightarrow> response prog" where
  "make_request srv method endpoint payload use_auth t =
     (let rq = request_of method endpoint payload use_auth t
      in if method = OTHER then raise ValueError t
         else (case srv (sent t) rq of
                 Fails \<Rightarrow> (Inl TransportError, t\<lparr>sent := sent t @ [rq]\<rparr>)
               | Returns r \<Rightarrow> (Inr r, t\<lparr>sent := sent t @ [rq]\<rparr>)))"

section \<open>The six steps\<close>

text \<open>
  The payload of step 1; \<open>now\<close> is \<open>int(time.time())\<close>, the one reading of the
  clock that reaches a request.
\<close>

definition step_1_payload :: "int \<Rightarrow> pyval" where
  "step_1_payload now =
     PDict [(''tenant_name'', PStr (''test-tenant-'' @ str_int now)),
            (''contact_email'', PStr ''test@example.com'')]"

definition step_1_create_public_reservation :: "int \<Rightarrow> server \<Rightarrow> bool prog" where
  "step_1_create_public_reservation now srv =
     bind (banner 1) (\<lambda>_.
     try_except
       (bind (make_request srv POST [Lit ''/multitenancy/reservations'']
                (Some (step_1_payload now)) False)
          (\<lambda>response.
             if status_code response = 200 then
               bind (lift (json_of response)) (\<lambda>data.
               bind (lift (py_get data ''reservation_id'' PNone)) (\<lambda>rid.
               bind (\<lambda>t. (Inr (), t\<lparr>reservation_id := rid\<rparr>)) (\<lambda>_.
               bind (lift (py_get data ''reservation_pwd'' PNone)) (\<lambda>pwd.
               bind (\<lambda>t. (Inr (), t\<lparr>reservation_pwd := pwd\<rparr>)) (\<lambda>_.
               ret True)))))
             else ret False))
       (\<lambda>e. ret False))"

definition step_2_tenant_checkin :: "server \<Rightarrow> bool prog" where
  "step_2_tenant_checkin srv =
     bind (banner 2) (\<lambda>_ self.
     if \<not> truthy (reservation_id self) then ret False self
     else
       try_except
         (bind (make_request srv POST
                  [Lit ''/multitenancy/reservations/'', Fmt (reservation_id self), Lit ''/check-in'']
                  (Some (PDict [(''reservation_pwd'', reservation_pwd self)])) False)
            (\<lambda>response.
               if status_code response = 200 then
                 bind (lift (json_of response)) (\<lambda>data.
                 bind (lift (py_get data ''token'' PNone)) (\<lambda>tok.
                 bind (\<lambda>t. (Inr (), t\<lparr>tenant_token := tok\<rparr>)) (\<lambda>_.
                 if truthy tok then bind (lift (py_len tok)) (\<lambda>_. ret True)
                 else ret False)))
               else ret False))
         (\<lambda>e. ret False) self)"

text \<open>
  A \<open>try\<close> block that can \<open>return\<close> or fall through to the statements after it
  yields \<open>Some b\<close> for \<open>return b\<close> and \<open>None\<close> when it falls through.
\<close>

text \<open>Step 3, first block: \<open># Check tenant config\<close>.\<close>

definition step_3_tenant_config :: "server \<Rightarrow> (bool option) prog" where
  "step_3_tenant_config srv =
     try_except
       (bind (make_request srv GET [Lit ''/tenant/config''] None True)
          (\<lambda>response.
             if status_code response = 200 then
               bind (lift (json_of response)) (\<lambda>config. ret None)
             else ret (Some False)))
       (\<lambda>e. ret (Some False))"

text \<open>
  Step 3, what the second block does with a decoded server configuration: the lookups
  of the plugin configuration and of the wallet type, any of which raises on an object
  that is not a dictionary, then \<open>return True\<close>.
\<close>

definition and_then :: "exn + 'a \<Rightarrow> ('a \<Rightarrow> exn + 'b) \<Rightarrow> exn + 'b" where
  "and_then r f = (case r of Inl e \<Rightarrow> Inl e | Inr x \<Rightarrow> f x)"

definition step_3_inspect :: "pyval \<Rightarrow> exn + bool" where
  "step_3_inspect server_config =
     and_then (py_get server_config ''config'' (PDict [])) (\<lambda>c.
     and_then (py_get c ''plugin_config'' (PDict [])) (\<lambda>plugin_config.
     and_then (py_get plugin_config ''cheqd'' (PDict [])) (\<lambda>cheqd_config.
     and_then (if truthy cheqd_config then
                 and_then (py_get cheqd_config ''network'' (PStr ''not set'')) (\<lambda>_.
                 and_then (py_get cheqd_config ''registrar_url'' (PStr ''not set'')) (\<lambda>_.
                 and_then (py_get cheqd_config ''resolver_url'' (PStr ''not set'')) (\<lambda>_.
                 Inr ())))
               else Inr ()) (\<lambda>_.
     and_then (py_get server_config ''config'' (PDict [])) (\<lambda>c'.
     and_then (py_get c' ''wallet'' (PDict [])) (\<lambda>wallet.
     and_then (py_get wallet ''type'' PNone) (\<lambda>wallet_type.
     Inr True)))))))"

text \<open>Step 3, second block: \<open># Check server config for cheqd settings\<close>.\<close>

definition step_3_server_config :: "server \<Rightarrow> bool prog" where
  "step_3_server_config srv =
     try_except
       (bind (make_request srv GET [Lit ''/status/config''] None True)
          (\<lambda>response.
             if status_code response = 200 then
               bind (lift (json_of response)) (\<lambda>server_config.
               lift (step_3_inspect server_config))
             else ret True))
       (\<lambda>e. ret True)"

definition step_3_validate_configuration :: "server \<Rightarrow> bool prog" where
  "step_3_validate_configuration srv =
     bind (banner 3) (\<lambda>_.
     bind (step_3_tenant_config srv)
       (\<lambda>returned. case returned of
                      Some b \<Rightarrow> ret b
                    | None \<Rightarrow> step_3_server_config srv))"

definition payloads_to_test :: "pyval list" where
  "payloads_to_test =
     [PDict [(''options'', PDict [(''network'', PStr ''xanadu''), (''key_type'', PStr ''ed25519'')])],
      PDict [(''options'', PDict [(''network'', PStr ''xanadu''), (''key_type'', PStr ''ed25519''),
                                  (''method_specific_id_algo'', PStr ''uuid'')])],
      PDict [(''options'', PDict [(''network'', PStr ''xanadu''), (''key_type'', PStr ''ed25519'')]),
             (''features'', PDict [])]]"

text \<open>
  \<open>data.get('did') or data.get('result', {}).get('did')\<close>: the second lookup is
  evaluated only when the first value is not truthy.
\<close>

definition did_of :: "pyval \<Rightarrow> exn + pyval" where
  "did_of data =
     (case py_get data ''did'' PNone of
        Inl e \<Rightarrow> Inl e
      | Inr d \<Rightarrow>
          if truthy d then Inr d
          else (case py_get data ''result'' (PDict []) of
                  Inl e \<Rightarrow> Inl e
                | Inr r \<Rightarrow> py_get r ''did'' PNone))"

text \<open>
  The body of the loop of step 4 for one payload: \<open>Some True\<close> when it executes
  \<open>return True\<close>, \<open>None\<close> when the loop goes on to the next payload.
\<close>

definition step_4_try_payload :: "server \<Rightarrow> pyval \<Rightarrow> (bool option) prog" where
  "step_4_try_payload srv payload =
     try_except
       (bind (make_request srv POST [Lit ''/did/cheqd/create''] (Some payload) True)
          (\<lambda>response.
             if status_code response = 200 then
               bind (lift (json_of response)) (\<lambda>data.
               bind (lift (did_of data)) (\<lambda>did.
               if truthy did then
                 bind (\<lambda>t. (Inr (), t\<lparr>created_did := did\<rparr>)) (\<lambda>_. ret (Some True))
               else ret None))
             else if status_code response = 500 then
               bind (try_except (bind (lift (json_of response)) (\<lambda>error_data. ret ()))
                                (\<lambda>e. ret ()))
                    (\<lambda>_. ret None)
             else ret None))
       (\<lambda>e. ret None)"

fun step_4_for_payloads :: "server \<Rightarrow> pyval list \<Rightarrow> bool prog" where
  "step_4_for_payloads srv [] = ret False"
| "step_4_for_payloads srv (payload # rest) =
     bind (step_4_try_payload srv payload)
       (\<lambda>returned. case returned of
                      Some b \<Rightarrow> ret b
                    | None \<Rightarrow> step_4_for_payloads srv rest)"

definition step_4_create_cheqd_did :: "server \<Rightarrow> bool prog" where
  "step_4_create_cheqd_did srv =
     bind (banner 4) (\<lambda>_. step_4_for_payloads srv payloads_to_test)"

definition step_5_assign_public_did :: "server \<Rightarrow> bool prog" where
  "step_5_assign_public_did srv =
     bind (banner 5) (\<lambda>_ self.
     if \<not> truthy (created_did self) then ret False self
     else
       try_except
         (bind (make_request srv POST [Lit ''/wallet/did/public?did='', Fmt (created_did self)]
                  (Some (PDict [])) True)
            (\<lambda>response.
               if status_code response = 200 then
                 bind (make_request srv GET [Lit ''/wallet/did/public''] None True)
                   (\<lambda>response.
                      if status_code response = 200 then
                        bind (lift (json_of response)) (\<lambda>public_did_data.
                        bind (lift (py_get public_did_data ''result'' (PDict []))) (\<lambda>result.
                        bind (lift (py_get result ''did'' PNone)) (\<lambda>assigned_did t.
                        if py_eq assigned_did (created_did t) then ret True t
                        else ret False t)))
                      else ret False)
               else ret False))
         (\<lambda>e. ret False) self)"

definition step_6_validate_issuer_status :: "server \<Rightarrow> bool prog" where
  "step_6_validate_issuer_status srv =
     bind (banner 6) (\<lambda>_.
     try_except
       (bind (make_request srv GET [Lit ''/wallet/did/public''] None True)
          (\<lambda>response.
             if status_code response = 200 then
               bind (lift (json_of response)) (\<lambda>public_did_data.
               bind (lift (py_get public_did_data ''result'' PNone)) (\<lambda>result.
               if truthy result then ret True else ret False))
             else ret False))
       (\<lambda>e. ret False))"

section \<open>The run\<close>

definition steps :: "int \<Rightarrow> server \<Rightarrow> (string \<times> bool prog) list" where
  "steps now srv =
     [(''Create Public Reservation'', step_1_create_public_reservation now srv),
      (''Tenant Check-In'', step_2_tenant_checkin srv),
      (''Validate Configuration'', step_3_validate_configuration srv),
      (''Create cheqd DID'', step_4_create_cheqd_did srv),
      (''Assign Public DID'', step_5_assign_public_did srv),
      (''Validate Issuer Status'', step_6_validate_issuer_status srv)]"

text \<open>
  The first loop of \<open>run_full_test\<close>: \<open>results[step_name] = success\<close>, and
  \<open>break\<close> at the first step that does not succeed.
\<close>

fun run_steps :: "(string \<times> bool prog) list \<Rightarrow> (string \<times> bool) list \<Rightarrow> ((string \<times> bool) list) prog" where
  "run_steps [] results = ret results"
| "run_steps ((step_name, step_func) # rest) results =
     bind step_func
       (\<lambda>success.
          if success then run_steps rest (AList.update step_name success results)
          else ret (AList.update step_name success results))"

text \<open>
  The second loop, over \<open>results.items()\<close>: one summary line per item (the pictograph
  before \<open>PASS\<close> or \<open>FAIL\<close> is left out), and \<open>all_passed\<close> cleared at an item that
  failed.
\<close>

fun summarise :: "(string \<times> bool) list \<Rightarrow> bool \<Rightarrow> bool prog" where
  "summarise [] all_passed = ret all_passed"
| "summarise ((step_name, success) # rest) all_passed =
     bind (\<lambda>t. (Inr (), t\<lparr>report := report t @ [step_name @ '': '' @ (if success then ''PASS'' else ''FAIL'')]\<rparr>))
       (\<lambda>_. summarise rest (if \<not> success then False else all_passed))"

definition run_full_test :: "int \<Rightarrow> server \<Rightarrow> bool prog" where
  "run_full_test now srv =
     bind (run_steps (steps now srv) []) (\<lambda>results. summarise results True)"

text \<open>
  \<open>main\<close>: the exit status of the process and the tester at the end. An exception that
  leaves \<open>run_full_test\<close> ends the interpreter with status 1.
\<close>

definition main :: "string option \<Rightarrow> bool \<Rightarrow> int \<Rightarrow> server \<Rightarrow> int \<times> tester" where
  "main arg_base_url arg_debug now srv =
     (let tester = init (case arg_base_url of None \<Rightarrow> ''http://localhost:8032'' | Some b \<Rightarrow> b) arg_debug
      in case run_full_test now srv tester of
           (Inr success, t) \<Rightarrow> (if success then 0 else 1, t)
         | (Inl e, t) \<Rightarrow> (1, t))"

section \<open>Notions of the specification\<close>

text \<open>
  The identifier that a reply to a creation request carries, in the specification's
  words: the reply is HTTP 200 with a JSON object, and the identifier is looked up first
  at the top-level \<open>did\<close> field, then at the \<open>did\<close> field of the nested \<open>result\<close>
  object; a value that is not truthy (absent, \<open>null\<close>, empty) is no identifier.
\<close>

definition nested_identifier :: "(string \<times> pyval) list \<Rightarrow> pyval option" where
  "nested_identifier kvs =
     (case map_of kvs ''result'' of
        Some (PDict res) \<Rightarrow>
          (case map_of res ''did'' of
             Some d \<Rightarrow> if truthy d then Some d else None
           | None \<Rightarrow> None)
      | _ \<Rightarrow> None)"

definition extractable_identifier :: "reply \<Rightarrow> pyval option" where
  "extractable_identifier rep =
     (case rep of
        Fails \<Rightarrow> None
      | Returns r \<Rightarrow>
          if status_code r = 200 then
            (case content r of
               Some (PDict kvs) \<Rightarrow>
                 (case map_of kvs ''did'' of
                    Some d \<Rightarrow> if truthy d then Some d else nested_identifier kvs
                  | None \<Rightarrow> nested_identifier kvs)
             | _ \<Rightarrow> None)
          else None)"

section \<open>Services and testers used as examples\<close>

text \<open>
  A service that answers the \<open>n\<close>-th request it receives with the \<open>n\<close>-th reply of a
  script, and refuses the connection once the script is exhausted; and a service that
  gives every request the same reply.
\<close>

definition scripted :: "reply list \<Rightarrow> server" where
  "scripted script received rq =
     (if length received < length script then script ! length received else Fails)"

definition always :: "reply \<Rightarrow> server" where
  "always rep received rq = rep"

definition ok :: "pyval \<Rightarrow> reply" where
  "ok body = Returns \<lparr>status_code = 200, content = Some body\<rparr>"

text \<open>A reply with the given status and a body that is not JSON.\<close>

definition status :: "int \<Rightarrow> reply" where
  "status n = Returns \<lparr>status_code = n, content = None\<rparr>"

text \<open>
  The tester that \<open>main\<close> constructs when no option is given, and the testers it
  becomes after a reservation, after the check-in and after the creation of an identifier.
\<close>

definition fresh :: tester where
  "fresh = init ''http://localhost:8032'' False"

definition reserved :: tester where
  "reserved = fresh\<lparr>reservation_id := PStr ''res-1'', reservation_pwd := PStr ''pwd-1''\<rparr>"

definition checked_in :: tester where
  "checked_in = reserved\<lparr>tenant_token := PStr ''jwt''\<rparr>"

definition with_did :: tester where
  "with_did = checked_in\<lparr>created_did := PStr ''did:cheqd:testnet:1''\<rparr>"

text \<open>
  The replies of a service on which the whole flow succeeds (the third payload of step 4
  is the one it accepts), that service, and one that rejects the check-in. A service
  that has only the first replies of the script refuses the connection after them.
\<close>

definition happy_replies :: "reply list" where
  "happy_replies =
     [ok (PDict [(''reservation_id'', PStr ''res-1''), (''reservation_pwd'', PStr ''pwd-1'')]),
      ok (PDict [(''token'', PStr ''jwt'')]),
      ok (PDict []),
      status 404,
      status 500,
      status 500,
      ok (PDict [(''did'', PStr ''did:cheqd:testnet:1'')]),
      ok (PDict []),
      ok (PDict [(''result'', PDict [(''did'', PStr ''did:cheqd:testnet:1'')])]),
      ok (PDict [(''result'', PDict [(''did'', PStr ''did:cheqd:testnet:1'')])])]"

definition happy_service :: server where
  "happy_service = scripted happy_replies"

definition checkin_401_service :: server where
  "checkin_401_service =
     scripted
       [ok (PDict [(''reservation_id'', PStr ''res-1''), (''reservation_pwd'', PStr ''pwd-1'')]),
        status 401]"

section \<open>What each step computes\<close>

text \<open>
  Each step is brought into the form of one case distinction on the replies of the
  service; the theorems below are read off these equations.
\<close>

lemmas prog_defs = ret_def lift_def bind_def try_except_def banner_def json_of_def

lemma make_request_cases:
  "make_request srv m ep p a t =
     (if m = OTHER then (Inl ValueError, t)
      else case srv (sent t) (request_of m ep p a t) of
             Fails \<Rightarrow> (Inl TransportError, t\<lparr>sent := sent t @ [request_of m ep p a t]\<rparr>)
           | Returns r \<Rightarrow> (Inr r, t\<lparr>sent := sent t @ [request_of m ep p a t]\<rparr>))"
  by (simp add: make_request_def raise_def Let_def)

lemma request_of_upd [simp]:
  "request_of m ep p a (t\<lparr>entered := e\<rparr>) = request_of m ep p a t"
  "request_of m ep p a (t\<lparr>sent := s\<rparr>) = request_of m ep p a t"
  "request_of m ep p a (t\<lparr>report := r\<rparr>) = request_of m ep p a t"
  "request_of m ep p a (t\<lparr>created_did := d\<rparr>) = request_of m ep p a t"
  "request_of m ep p a (t\<lparr>reservation_id := d\<rparr>) = request_of m ep p a t"
  "request_of m ep p a (t\<lparr>reservation_pwd := d\<rparr>) = request_of m ep p a t"
  by (simp_all add: request_of_def)

subsection \<open>Steps 1 and 2\<close>

lemma step_1_cases:
  "step_1_create_public_reservation now srv t =
     (let rq = request_of POST [Lit ''/multitenancy/reservations'']
                 (Some (step_1_payload now)) False t;
          t1 = t\<lparr>entered := entered t @ [1], sent := sent t @ [rq]\<rparr>
      in case srv (sent t) rq of
           Fails \<Rightarrow> (Inr False, t1)
         | Returns r \<Rightarrow>
             if status_code r = 200 then
               (case content r of
                  Some (PDict kvs) \<Rightarrow>
                    (Inr True,
                     t1\<lparr>reservation_id := (case map_of kvs ''reservation_id'' of Some v \<Rightarrow> v | None \<Rightarrow> PNone),
                        reservation_pwd := (case map_of kvs ''reservation_pwd'' of Some v \<Rightarrow> v | None \<Rightarrow> PNone)\<rparr>)
                | _ \<Rightarrow> (Inr False, t1))
             else (Inr False, t1))"
  by (simp add: step_1_create_public_reservation_def prog_defs make_request_cases Let_def
      split: reply.splits option.splits pyval.splits)

lemma py_len_Inl: "py_len v = Inl e \<Longrightarrow> e = TypeError"
  by (cases v) simp_all

lemma step_2_cases:
  "step_2_tenant_checkin srv t =
     (if \<not> truthy (reservation_id t) then (Inr False, t\<lparr>entered := entered t @ [2]\<rparr>)
      else
        let rq = request_of POST
                   [Lit ''/multitenancy/reservations/'', Fmt (reservation_id t), Lit ''/check-in'']
                   (Some (PDict [(''reservation_pwd'', reservation_pwd t)])) False t;
            t1 = t\<lparr>entered := entered t @ [2], sent := sent t @ [rq]\<rparr>
        in case srv (sent t) rq of
             Fails \<Rightarrow> (Inr False, t1)
           | Returns r \<Rightarrow>
               if status_code r = 200 then
                 (case content r of
                    Some (PDict kvs) \<Rightarrow>
                      (let tok = (case map_of kvs ''token'' of Some v \<Rightarrow> v | None \<Rightarrow> PNone)
                       in (Inr (truthy tok \<and> py_len tok \<noteq> Inl TypeError), t1\<lparr>tenant_token := tok\<rparr>))
                  | _ \<Rightarrow> (Inr False, t1))
               else (Inr False, t1))"
  by (auto simp add: step_2_tenant_checkin_def prog_defs make_request_cases Let_def
      split: reply.splits option.splits pyval.splits sum.splits dest: py_len_Inl)

subsection \<open>Step 3\<close>

lemma and_then_not_False: "(\<And>v. f v \<noteq> Inr False) \<Longrightarrow> and_then x f \<noteq> Inr False"
  by (cases x) (simp_all add: and_then_def)

lemma step_3_inspect_not_False: "step_3_inspect sc \<noteq> Inr False"
  unfolding step_3_inspect_def by (intro and_then_not_False) simp

lemma step_3_inspect_True: "step_3_inspect sc = Inr b \<Longrightarrow> b"
  using step_3_inspect_not_False [of sc] by (cases b) simp_all

lemma step_3_tenant_config_cases:
  "step_3_tenant_config srv t =
     (case srv (sent t) (request_of GET [Lit ''/tenant/config''] None True t) of
        Fails \<Rightarrow> Inr (Some False)
      | Returns r \<Rightarrow> if status_code r = 200 \<and> content r \<noteq> None then Inr None else Inr (Some False),
      t\<lparr>sent := sent t @ [request_of GET [Lit ''/tenant/config''] None True t]\<rparr>)"
  by (simp add: step_3_tenant_config_def prog_defs make_request_cases split: reply.splits option.splits)

lemma step_3_server_config_cases:
  "step_3_server_config srv t =
     (Inr True, t\<lparr>sent := sent t @ [request_of GET [Lit ''/status/config''] None True t]\<rparr>)"
  by (auto simp add: step_3_server_config_def prog_defs make_request_cases split: reply.splits option.splits sum.splits dest: step_3_inspect_True)

lemma step_3_cases:
  "step_3_validate_configuration srv t =
     (case srv (sent t) (request_of GET [Lit ''/tenant/config''] None True t) of
        Fails \<Rightarrow>
          (Inr False, t\<lparr>entered := entered t @ [3],
                         sent := sent t @ [request_of GET [Lit ''/tenant/config''] None True t]\<rparr>)
      | Returns r \<Rightarrow>
          if status_code r = 200 \<and> content r \<noteq> None then
            (Inr True, t\<lparr>entered := entered t @ [3],
                          sent := sent t @ [request_of GET [Lit ''/tenant/config''] None True t,
                                            request_of GET [Lit ''/status/config''] None True t]\<rparr>)
          else
            (Inr False, t\<lparr>entered := entered t @ [3],
                           sent := sent t @ [request_of GET [Lit ''/tenant/config''] None True t]\<rparr>))"
  by (auto simp add: step_3_validate_configuration_def bind_def banner_def ret_def
      step_3_tenant_config_cases step_3_server_config_cases split: reply.splits)

subsection \<open>Step 4\<close>

lemma did_of_extractable:
  "(case did_of data of Inr d \<Rightarrow> if truthy d then Some d else None | Inl e \<Rightarrow> None) =
   extractable_identifier (Returns \<lparr>status_code = 200, content = Some data\<rparr>)"
  by (cases data)
     (auto simp: did_of_def extractable_identifier_def nested_identifier_def
           split: option.splits pyval.splits sum.splits)

lemma step_4_try_payload_cases:
  "step_4_try_payload srv p t =
     (let rq = request_of POST [Lit ''/did/cheqd/create''] (Some p) True t
      in case extractable_identifier (srv (sent t) rq) of
           Some d \<Rightarrow> (Inr (Some True), t\<lparr>sent := sent t @ [rq], created_did := d\<rparr>)
         | None \<Rightarrow> (Inr None, t\<lparr>sent := sent t @ [rq]\<rparr>))"
proof (cases "srv (sent t) (request_of POST [Lit ''/did/cheqd/create''] (Some p) True t)")
  case Fails
  then show ?thesis
    by (simp add: step_4_try_payload_def prog_defs make_request_cases extractable_identifier_def)
next
  case (Returns r)
  show ?thesis
  proof (cases "status_code r = 200")
    case False
    with Returns show ?thesis
      by (simp add: step_4_try_payload_def prog_defs make_request_cases extractable_identifier_def
               split: option.splits)
  next
    case True
    show ?thesis
    proof (cases "content r")
      case None
      with True Returns show ?thesis
        by (simp add: step_4_try_payload_def prog_defs make_request_cases extractable_identifier_def)
    next
      case (Some data)
      have r: "r = \<lparr>status_code = 200, content = Some data\<rparr>"
        using True Some by (cases r) simp
      show ?thesis
        using Returns True Some did_of_extractable [of data, symmetric]
        by (simp add: r step_4_try_payload_def prog_defs make_request_cases split: sum.splits)
    qed
  qed
qed

lemma step_4_for_payloads_Nil: "step_4_for_payloads srv [] t = (Inr False, t)"
  by (simp add: ret_def)

lemma step_4_for_payloads_Cons:
  "step_4_for_payloads srv (p # ps) t =
     (let rq = request_of POST [Lit ''/did/cheqd/create''] (Some p) True t
      in case extractable_identifier (srv (sent t) rq) of
           Some d \<Rightarrow> (Inr True, t\<lparr>sent := sent t @ [rq], created_did := d\<rparr>)
         | None \<Rightarrow> step_4_for_payloads srv ps (t\<lparr>sent := sent t @ [rq]\<rparr>))"
  by (simp add: bind_def ret_def step_4_try_payload_cases Let_def split: option.splits)

lemma step_4_cases:
  "step_4_create_cheqd_did srv t =
     (let r1 = request_of POST [Lit ''/did/cheqd/create''] (Some (payloads_to_test ! 0)) True t;
          r2 = request_of POST [Lit ''/did/cheqd/create''] (Some (payloads_to_test ! 1)) True t;
          r3 = request_of POST [Lit ''/did/cheqd/create''] (Some (payloads_to_test ! 2)) True t;
          t0 = t\<lparr>entered := entered t @ [4]\<rparr>
      in case extractable_identifier (srv (sent t) r1) of
           Some d \<Rightarrow> (Inr True, t0\<lparr>sent := sent t @ [r1], created_did := d\<rparr>)
         | None \<Rightarrow>
             (case extractable_identifier (srv (sent t @ [r1]) r2) of
                Some d \<Rightarrow> (Inr True, t0\<lparr>sent := sent t @ [r1, r2], created_did := d\<rparr>)
              | None \<Rightarrow>
                  (case extractable_identifier (srv (sent t @ [r1, r2]) r3) of
                     Some d \<Rightarrow> (Inr True, t0\<lparr>sent := sent t @ [r1, r2, r3], created_did := d\<rparr>)
                   | None \<Rightarrow> (Inr False, t0\<lparr>sent := sent t @ [r1, r2, r3]\<rparr>))))"
  by (simp add: step_4_create_cheqd_did_def payloads_to_test_def bind_def banner_def
      step_4_for_payloads_Cons step_4_for_payloads_Nil Let_def
      del: step_4_for_payloads.simps split: option.splits)

subsection \<open>Steps 5 and 6\<close>

lemma py_eq_strings: "py_eq (PStr a) (PStr b) = (a = b)"
  by auto

lemma step_5_cases:
  "step_5_assign_public_did srv t =
     (if \<not> truthy (created_did t) then (Inr False, t\<lparr>entered := entered t @ [5]\<rparr>)
      else
        let rq = request_of POST [Lit ''/wallet/did/public?did='', Fmt (created_did t)] (Some (PDict [])) True t;
            rq' = request_of GET [Lit ''/wallet/did/public''] None True t;
            t1 = t\<lparr>entered := entered t @ [5], sent := sent t @ [rq]\<rparr>;
            t2 = t\<lparr>entered := entered t @ [5], sent := sent t @ [rq, rq']\<rparr>
        in case srv (sent t) rq of
             Fails \<Rightarrow> (Inr False, t1)
           | Returns r \<Rightarrow>
               if status_code r = 200 then
                 (case srv (sent t @ [rq]) rq' of
                    Fails \<Rightarrow> (Inr False, t2)
                  | Returns r' \<Rightarrow>
                      (Inr (status_code r' = 200 \<and>
                            (\<exists>data res d. content r' = Some data \<and>
                               py_get data ''result'' (PDict []) = Inr res \<and>
                               py_get res ''did'' PNone = Inr d \<and> py_eq d (created_did t))), t2))
               else (Inr False, t1))"
  by (auto simp add: step_5_assign_public_did_def prog_defs make_request_cases Let_def
      split: reply.splits option.splits sum.splits)

lemma step_6_cases:
  "step_6_validate_issuer_status srv t =
     (let rq = request_of GET [Lit ''/wallet/did/public''] None True t
      in (Inr (case srv (sent t) rq of
                 Fails \<Rightarrow> False
               | Returns r \<Rightarrow>
                   status_code r = 200 \<and>
                   (case content r of
                      Some (PDict kvs) \<Rightarrow> (case map_of kvs ''result'' of Some v \<Rightarrow> truthy v | None \<Rightarrow> False)
                    | _ \<Rightarrow> False)),
          t\<lparr>entered := entered t @ [6], sent := sent t @ [rq]\<rparr>))"
  by (simp add: step_6_validate_issuer_status_def prog_defs make_request_cases Let_def
      split: reply.splits option.splits pyval.splits)

subsection \<open>What a step leaves unchanged\<close>

lemma step_1_frame:
  "\<exists>b t'. step_1_create_public_reservation now srv t = (Inr b, t') \<and>
     entered t' = entered t @ [1] \<and> report t' = report t \<and> base_url t' = base_url t \<and>
     debug t' = debug t \<and> tenant_token t' = tenant_token t \<and> created_did t' = created_did t"
  by (auto simp add: step_1_cases Let_def split: reply.splits option.splits pyval.splits)

lemma step_2_frame:
  "\<exists>b t'. step_2_tenant_checkin srv t = (Inr b, t') \<and>
     entered t' = entered t @ [2] \<and> report t' = report t \<and> base_url t' = base_url t \<and>
     debug t' = debug t \<and> reservation_id t' = reservation_id t \<and>
     reservation_pwd t' = reservation_pwd t \<and> created_did t' = created_did t"
  by (auto simp add: step_2_cases Let_def split: reply.splits option.splits pyval.splits)

lemma step_3_frame:
  "\<exists>b t'. step_3_validate_configuration srv t = (Inr b, t') \<and>
     entered t' = entered t @ [3] \<and> report t' = report t \<and> base_url t' = base_url t \<and>
     debug t' = debug t \<and> reservation_id t' = reservation_id t \<and>
     reservation_pwd t' = reservation_pwd t \<and> tenant_token t' = tenant_token t \<and>
     created_did t' = created_did t"
  by (auto simp add: step_3_cases split: reply.splits)

lemma step_4_frame:
  "\<exists>b t'. step_4_create_cheqd_did srv t = (Inr b, t') \<and>
     entered t' = entered t @ [4] \<and> report t' = report t \<and> base_url t' = base_url t \<and>
     debug t' = debug t \<and> reservation_id t' = reservation_id t \<and>
     reservation_pwd t' = reservation_pwd t \<and> tenant_token t' = tenant_token t"
  by (auto simp add: step_4_cases Let_def split: option.splits)

lemma step_5_frame:
  "\<exists>b t'. step_5_assign_public_did srv t = (Inr b, t') \<and>
     entered t' = entered t @ [5] \<and> report t' = report t \<and> base_url t' = base_url t \<and>
     debug t' = debug t \<and> reservation_id t' = reservation_id t \<and>
     reservation_pwd t' = reservation_pwd t \<and> tenant_token t' = tenant_token t \<and>
     created_did t' = created_did t"
  by (auto simp add: step_5_cases Let_def split: reply.splits)

lemma step_6_frame:
  "\<exists>b t'. step_6_validate_issuer_status srv t = (Inr b, t') \<and>
     entered t' = entered t @ [6] \<and> report t' = report t \<and> base_url t' = base_url t \<and>
     debug t' = debug t \<and> reservation_id t' = reservation_id t \<and>
     reservation_pwd t' = reservation_pwd t \<and> tenant_token t' = tenant_token t \<and>
     created_did t' = created_did t"
  by (auto simp add: step_6_cases Let_def)

subsection \<open>The two loops of the run\<close>

lemma run_steps_Nil: "run_steps [] results t = (Inr results, t)"
  by (simp add: ret_def)

lemma run_steps_Cons:
  "run_steps ((step_name, step_func) # rest) results t =
     (case step_func t of
        (Inl e, t1) \<Rightarrow> (Inl e, t1)
      | (Inr success, t1) \<Rightarrow>
          if success then run_steps rest (AList.update step_name True results) t1
          else (Inr (AList.update step_name False results), t1))"
  by (simp add: bind_def ret_def split: prod.splits sum.splits)

lemma summarise_eq:
  "summarise results all_passed t =
     (Inr (all_passed \<and> list_all snd results),
      t\<lparr>report := report t @ map (\<lambda>(step_name, success). step_name @ '': '' @ (if success then ''PASS'' else ''FAIL'')) results\<rparr>)"
proof (induction results arbitrary: all_passed t)
  case Nil
  show ?case by (simp add: ret_def)
next
  case (Cons a results)
  obtain n s where a: "a = (n, s)" by (cases a)
  show ?case by (auto simp add: a bind_def Cons.IH)
qed

lemma run_full_test_unfold:
  assumes "step_1_create_public_reservation now srv t = (Inr b1, t1)"
      and "step_2_tenant_checkin srv t1 = (Inr b2, t2)"
      and "step_3_validate_configuration srv t2 = (Inr b3, t3)"
      and "step_4_create_cheqd_did srv t3 = (Inr b4, t4)"
      and "step_5_assign_public_did srv t4 = (Inr b5, t5)"
      and "step_6_validate_issuer_status srv t5 = (Inr b6, t6)"
  shows "run_full_test now srv t =
     (if \<not> b1 then (Inr False, t1\<lparr>report := report t1 @ [''Create Public Reservation: FAIL'']\<rparr>)
      else if \<not> b2 then (Inr False, t2\<lparr>report := report t2 @ [''Create Public Reservation: PASS'', ''Tenant Check-In: FAIL'']\<rparr>)
      else if \<not> b3 then (Inr False, t3\<lparr>report := report t3 @ [''Create Public Reservation: PASS'', ''Tenant Check-In: PASS'', ''Validate Configuration: FAIL'']\<rparr>)
      else if \<not> b4 then (Inr False, t4\<lparr>report := report t4 @ [''Create Public Reservation: PASS'', ''Tenant Check-In: PASS'', ''Validate Configuration: PASS'', ''Create cheqd DID: FAIL'']\<rparr>)
      else if \<not> b5 then (Inr False, t5\<lparr>report := report t5 @ [''Create Public Reservation: PASS'', ''Tenant Check-In: PASS'', ''Validate Configuration: PASS'', ''Create cheqd DID: PASS'', ''Assign Public DID: FAIL'']\<rparr>)
      else (Inr b6, t6\<lparr>report := report t6 @ [''Create Public Reservation: PASS'', ''Tenant Check-In: PASS'', ''Validate Configuration: PASS'', ''Create cheqd DID: PASS'', ''Assign Public DID: PASS'', ''Validate Issuer Status: '' @ (if b6 then ''PASS'' else ''FAIL'')]\<rparr>))"
  using assms
  by (simp add: run_full_test_def steps_def bind_def run_steps_Cons run_steps_Nil summarise_eq
           del: run_steps.simps summarise.simps)

lemma run_full_test_returns: "\<exists>b t'. run_full_test now srv t = (Inr b, t')"
proof -
  obtain b1 t1 where s1: "step_1_create_public_reservation now srv t = (Inr b1, t1)"
    using step_1_frame by blast
  obtain b2 t2 where s2: "step_2_tenant_checkin srv t1 = (Inr b2, t2)"
    using step_2_frame by blast
  obtain b3 t3 where s3: "step_3_validate_configuration srv t2 = (Inr b3, t3)"
    using step_3_frame by blast
  obtain b4 t4 where s4: "step_4_create_cheqd_did srv t3 = (Inr b4, t4)"
    using step_4_frame by blast
  obtain b5 t5 where s5: "step_5_assign_public_did srv t4 = (Inr b5, t5)"
    using step_5_frame by blast
  obtain b6 t6 where s6: "step_6_validate_issuer_status srv t5 = (Inr b6, t6)"
    using step_6_frame by blast
  show ?thesis
    by (auto simp add: run_full_test_unfold [OF s1 s2 s3 s4 s5 s6])
qed

lemma run_full_test_base_url: "base_url (snd (run_full_test now srv t)) = base_url t"
proof -
  obtain b1 t1 where s1: "step_1_create_public_reservation now srv t = (Inr b1, t1)"
    and u1: "base_url t1 = base_url t"
    using step_1_frame by blast
  obtain b2 t2 where s2: "step_2_tenant_checkin srv t1 = (Inr b2, t2)"
    and u2: "base_url t2 = base_url t1"
    using step_2_frame by blast
  obtain b3 t3 where s3: "step_3_validate_configuration srv t2 = (Inr b3, t3)"
    and u3: "base_url t3 = base_url t2"
    using step_3_frame by blast
  obtain b4 t4 where s4: "step_4_create_cheqd_did srv t3 = (Inr b4, t4)"
    and u4: "base_url t4 = base_url t3"
    using step_4_frame by blast
  obtain b5 t5 where s5: "step_5_assign_public_did srv t4 = (Inr b5, t5)"
    and u5: "base_url t5 = base_url t4"
    using step_5_frame by blast
  obtain b6 t6 where s6: "step_6_validate_issuer_status srv t5 = (Inr b6, t6)"
    and u6: "base_url t6 = base_url t5"
    using step_6_frame by blast
  show ?thesis
    by (simp add: run_full_test_unfold [OF s1 s2 s3 s4 s5 s6] u1 u2 u3 u4 u5 u6)
qed

lemma main_snd:
  "snd (main arg_base_url arg_debug now srv) =
   snd (run_full_test now srv
          (init (case arg_base_url of None \<Rightarrow> ''http://localhost:8032'' | Some b \<Rightarrow> b)
                arg_debug))"
  by (simp add: main_def Let_def split: prod.splits sum.splits)

lemma with_fst: "fst p = a \<Longrightarrow> p = (a, snd p)"
  by (cases p) simp

section \<open>The run as a whole\<close>

text \<open>
  C1. The result of \<open>run_full_test\<close> is \<open>True\<close> exactly when the six steps, each run
  on the tester its predecessor left, all report success; the run never raises. When
  step \<open>N\<close> is the first that does not report success, the banners logged are those of
  steps 1 to \<open>N\<close> and the requests sent are those sent up to the end of step \<open>N\<close>: no
  later step is invoked. \<open>main\<close> exits with status 0 when the result is \<open>True\<close> and with
  status 1 otherwise.
\<close>

theorem run_full_test_short_circuit:
  assumes s1: "step_1_create_public_reservation now srv t = (r1, t1)"
      and s2: "step_2_tenant_checkin srv t1 = (r2, t2)"
      and s3: "step_3_validate_configuration srv t2 = (r3, t3)"
      and s4: "step_4_create_cheqd_did srv t3 = (r4, t4)"
      and s5: "step_5_assign_public_did srv t4 = (r5, t5)"
      and s6: "step_6_validate_issuer_status srv t5 = (r6, t6)"
      and run: "run_full_test now srv t = (res, t')"
  shows "res = Inr (r1 = Inr True \<and> r2 = Inr True \<and> r3 = Inr True \<and>
                   r4 = Inr True \<and> r5 = Inr True \<and> r6 = Inr True) \<and>
         (r1 \<noteq> Inr True \<longrightarrow> entered t' = entered t @ [1] \<and> sent t' = sent t1) \<and>
         (r1 = Inr True \<and> r2 \<noteq> Inr True \<longrightarrow>
            entered t' = entered t @ [1, 2] \<and> sent t' = sent t2) \<and>
         (r1 = Inr True \<and> r2 = Inr True \<and> r3 \<noteq> Inr True \<longrightarrow>
            entered t' = entered t @ [1, 2, 3] \<and> sent t' = sent t3) \<and>
         (r1 = Inr True \<and> r2 = Inr True \<and> r3 = Inr True \<and> r4 \<noteq> Inr True \<longrightarrow>
            entered t' = entered t @ [1, 2, 3, 4] \<and> sent t' = sent t4) \<and>
         (r1 = Inr True \<and> r2 = Inr True \<and> r3 = Inr True \<and> r4 = Inr True \<and> r5 \<noteq> Inr True \<longrightarrow>
            entered t' = entered t @ [1, 2, 3, 4, 5] \<and> sent t' = sent t5) \<and>
         (r1 = Inr True \<and> r2 = Inr True \<and> r3 = Inr True \<and> r4 = Inr True \<and> r5 = Inr True \<longrightarrow>
            entered t' = entered t @ [1, 2, 3, 4, 5, 6] \<and> sent t' = sent t6) \<and>
         fst (main arg_base_url arg_debug now srv) =
           (if fst (run_full_test now srv
                      (init (case arg_base_url of None \<Rightarrow> ''http://localhost:8032'' | Some b \<Rightarrow> b)
                            arg_debug)) = Inr True
            then 0 else 1)"
proof -
  obtain b1 where r1: "r1 = Inr b1" and e1: "entered t1 = entered t @ [1]"
    using step_1_frame [of now srv t] s1 by auto
  obtain b2 where r2: "r2 = Inr b2" and e2: "entered t2 = entered t1 @ [2]"
    using step_2_frame [of srv t1] s2 by auto
  obtain b3 where r3: "r3 = Inr b3" and e3: "entered t3 = entered t2 @ [3]"
    using step_3_frame [of srv t2] s3 by auto
  obtain b4 where r4: "r4 = Inr b4" and e4: "entered t4 = entered t3 @ [4]"
    using step_4_frame [of srv t3] s4 by auto
  obtain b5 where r5: "r5 = Inr b5" and e5: "entered t5 = entered t4 @ [5]"
    using step_5_frame [of srv t4] s5 by auto
  obtain b6 where r6: "r6 = Inr b6" and e6: "entered t6 = entered t5 @ [6]"
    using step_6_frame [of srv t5] s6 by auto
  note u = run_full_test_unfold [OF s1 [unfolded r1] s2 [unfolded r2] s3 [unfolded r3]
      s4 [unfolded r4] s5 [unfolded r5] s6 [unfolded r6]]
  have steps: "res = Inr (b1 \<and> b2 \<and> b3 \<and> b4 \<and> b5 \<and> b6)"
    using run u by (auto split: if_splits)
  have trace: "(\<not> b1 \<longrightarrow> entered t' = entered t @ [1] \<and> sent t' = sent t1) \<and>
         (b1 \<and> \<not> b2 \<longrightarrow> entered t' = entered t @ [1, 2] \<and> sent t' = sent t2) \<and>
         (b1 \<and> b2 \<and> \<not> b3 \<longrightarrow> entered t' = entered t @ [1, 2, 3] \<and> sent t' = sent t3) \<and>
         (b1 \<and> b2 \<and> b3 \<and> \<not> b4 \<longrightarrow> entered t' = entered t @ [1, 2, 3, 4] \<and> sent t' = sent t4) \<and>
         (b1 \<and> b2 \<and> b3 \<and> b4 \<and> \<not> b5 \<longrightarrow> entered t' = entered t @ [1, 2, 3, 4, 5] \<and> sent t' = sent t5) \<and>
         (b1 \<and> b2 \<and> b3 \<and> b4 \<and> b5 \<longrightarrow> entered t' = entered t @ [1, 2, 3, 4, 5, 6] \<and> sent t' = sent t6)"
    using run u e1 e2 e3 e4 e5 e6 by (auto split: if_splits)
  obtain b tf where m: "run_full_test now srv
      (init (case arg_base_url of None \<Rightarrow> ''http://localhost:8032'' | Some b \<Rightarrow> b) arg_debug) = (Inr b, tf)"
    using run_full_test_returns by blast
  have exit: "fst (main arg_base_url arg_debug now srv) =
           (if fst (run_full_test now srv
                      (init (case arg_base_url of None \<Rightarrow> ''http://localhost:8032'' | Some b \<Rightarrow> b)
                            arg_debug)) = Inr True
            then 0 else 1)"
    by (simp add: main_def m)
  show ?thesis
    using steps trace exit by (simp add: r1 r2 r3 r4 r5 r6)
qed

theorem run_full_test_short_circuit_witness:
  "fst (run_full_test 0 (always Fails) fresh) = Inr False \<and>
   entered (snd (run_full_test 0 (always Fails) fresh)) = [1] \<and>
   fst (main None False 0 (always Fails)) = 1 \<and>
   fst (run_full_test 0 checkin_401_service fresh) = Inr False \<and>
   entered (snd (run_full_test 0 checkin_401_service fresh)) = [1, 2] \<and>
   fst (main None False 0 checkin_401_service) = 1 \<and>
   fst (run_full_test 0 (scripted (take 2 happy_replies)) fresh) = Inr False \<and>
   entered (snd (run_full_test 0 (scripted (take 2 happy_replies)) fresh)) = [1, 2, 3] \<and>
   fst (main None False 0 (scripted (take 2 happy_replies))) = 1 \<and>
   fst (run_full_test 0 (scripted (take 4 happy_replies)) fresh) = Inr False \<and>
   entered (snd (run_full_test 0 (scripted (take 4 happy_replies)) fresh)) = [1, 2, 3, 4] \<and>
   fst (main None False 0 (scripted (take 4 happy_replies))) = 1 \<and>
   fst (run_full_test 0 (scripted (take 7 happy_replies)) fresh) = Inr False \<and>
   entered (snd (run_full_test 0 (scripted (take 7 happy_replies)) fresh)) = [1, 2, 3, 4, 5] \<and>
   fst (main None False 0 (scripted (take 7 happy_replies))) = 1 \<and>
   fst (run_full_test 0 (scripted (take 9 happy_replies)) fresh) = Inr False \<and>
   entered (snd (run_full_test 0 (scripted (take 9 happy_replies)) fresh)) = [1, 2, 3, 4, 5, 6] \<and>
   fst (main None False 0 (scripted (take 9 happy_replies))) = 1 \<and>
   fst (run_full_test 0 happy_service fresh) = Inr True \<and>
   entered (snd (run_full_test 0 happy_service fresh)) = [1, 2, 3, 4, 5, 6] \<and>
   fst (main None False 0 happy_service) = 0"
proof -
  have e: "entered fresh = []" "report fresh = []"
    by (simp_all add: fresh_def init_def)
  have h0_1: "fst (step_1_create_public_reservation 0 (always Fails) fresh) =
            Inr False"
    by code_simp
  note r0 = run_full_test_short_circuit
    [OF with_fst [OF h0_1] surjective_pairing surjective_pairing
        surjective_pairing surjective_pairing surjective_pairing
        surjective_pairing, of None False]
  have a0: "fst (run_full_test 0 (always Fails) fresh) = Inr False"
    using r0 by simp
  have b0: "entered (snd (run_full_test 0 (always Fails) fresh)) = [1]"
    using r0 e by simp
  have c0: "fst (main None False 0 (always Fails)) = 1"
    using r0 a0 by (simp add: fresh_def)
  have h1_1: "fst (step_1_create_public_reservation 0 checkin_401_service fresh) =
            Inr True"
    by code_simp
  have h1_2: "fst (step_2_tenant_checkin checkin_401_service (snd (step_1_create_public_reservation 0 checkin_401_service fresh))) =
            Inr False"
    by code_simp
  note r1 = run_full_test_short_circuit
    [OF with_fst [OF h1_1] with_fst [OF h1_2] surjective_pairing
        surjective_pairing surjective_pairing surjective_pairing
        surjective_pairing, of None False]
  have a1: "fst (run_full_test 0 checkin_401_service fresh) = Inr False"
    using r1 by simp
  have b1: "entered (snd (run_full_test 0 checkin_401_service fresh)) = [1, 2]"
    using r1 e by simp
  have c1: "fst (main None False 0 checkin_401_service) = 1"
    using r1 a1 by (simp add: fresh_def)
  have h2_1: "fst (step_1_create_public_reservation 0 (scripted (take 2 happy_replies)) fresh) =
            Inr True"
    by code_simp
  have h2_2: "fst (step_2_tenant_checkin (scripted (take 2 happy_replies)) (snd (step_1_create_public_reservation 0 (scripted (take 2 happy_replies)) fresh))) =
            Inr True"
    by code_simp
  have h2_3: "fst (step_3_validate_configuration (scripted (take 2 happy_replies)) (snd (step_2_tenant_checkin (scripted (take 2 happy_replies)) (snd (step_1_create_public_reservation 0 (scripted (take 2 happy_replies)) fresh))))) =
            Inr False"
    by code_simp
  note r2 = run_full_test_short_circuit
    [OF with_fst [OF h2_1] with_fst [OF h2_2] with_fst [OF h2_3]
        surjective_pairing surjective_pairing surjective_pairing
        surjective_pairing, of None False]
  have a2: "fst (run_full_test 0 (scripted (take 2 happy_replies)) fresh) = Inr False"
    using r2 by simp
  have b2: "entered (snd (run_full_test 0 (scripted (take 2 happy_replies)) fresh)) = [1, 2, 3]"
    using r2 e by simp
  have c2: "fst (main None False 0 (scripted (take 2 happy_replies))) = 1"
    using r2 a2 by (simp add: fresh_def)
  have h3_1: "fst (step_1_create_public_reservation 0 (scripted (take 4 happy_replies)) fresh) =
            Inr True"
    by code_simp
  have h3_2: "fst (step_2_tenant_checkin (scripted (take 4 happy_replies)) (snd (step_1_create_public_reservation 0 (scripted (take 4 happy_replies)) fresh))) =
            Inr True"
    by code_simp
  have h3_3: "fst (step_3_validate_configuration (scripted (take 4 happy_replies)) (snd (step_2_tenant_checkin (scripted (take 4 happy_replies)) (snd (step_1_create_public_reservation 0 (scripted (take 4 happy_replies)) fresh))))) =
            Inr True"
    by code_simp
  have h3_4: "fst (step_4_create_cheqd_did (scripted (take 4 happy_replies)) (snd (step_3_validate_configuration (scripted (take 4 happy_replies)) (snd (step_2_tenant_checkin (scripted (take 4 happy_replies)) (snd (step_1_create_public_reservation 0 (scripted (take 4 happy_replies)) fresh))))))) =
            Inr False"
    by code_simp
  note r3 = run_full_test_short_circuit
    [OF with_fst [OF h3_1] with_fst [OF h3_2] with_fst [OF h3_3]
        with_fst [OF h3_4] surjective_pairing surjective_pairing
        surjective_pairing, of None False]
  have a3: "fst (run_full_test 0 (scripted (take 4 happy_replies)) fresh) = Inr False"
    using r3 by simp
  have b3: "entered (snd (run_full_test 0 (scripted (take 4 happy_replies)) fresh)) = [1, 2, 3, 4]"
    using r3 e by simp
  have c3: "fst (main None False 0 (scripted (take 4 happy_replies))) = 1"
    using r3 a3 by (simp add: fresh_def)
  have h4_1: "fst (step_1_create_public_reservation 0 (scripted (take 7 happy_replies)) fresh) =
            Inr True"
    by code_simp
  have h4_2: "fst (step_2_tenant_checkin (scripted (take 7 happy_replies)) (snd (step_1_create_public_reservation 0 (scripted (take 7 happy_replies)) fresh))) =
            Inr True"
    by code_simp
  have h4_3: "fst (step_3_validate_configuration (scripted (take 7 happy_replies)) (snd (step_2_tenant_checkin (scripted (take 7 happy_replies)) (snd (step_1_create_public_reservation 0 (scripted (take 7 happy_replies)) fresh))))) =
            Inr True"
    by code_simp
  have h4_4: "fst (step_4_create_cheqd_did (scripted (take 7 happy_replies)) (snd (step_3_validate_configuration (scripted (take 7 happy_replies)) (snd (step_2_tenant_checkin (scripted (take 7 happy_replies)) (snd (step_1_create_public_reservation 0 (scripted (take 7 happy_replies)) fresh))))))) =
            Inr True"
    by code_simp
  have h4_5: "fst (step_5_assign_public_did (scripted (take 7 happy_replies)) (snd (step_4_create_cheqd_did (scripted (take 7 happy_replies)) (snd (step_3_validate_configuration (scripted (take 7 happy_replies)) (snd (step_2_tenant_checkin (scripted (take 7 happy_replies)) (snd (step_1_create_public_reservation 0 (scripted (take 7 happy_replies)) fresh))))))))) =
            Inr False"
    by code_simp
  note r4 = run_full_test_short_circuit
    [OF with_fst [OF h4_1] with_fst [OF h4_2] with_fst [OF h4_3]
        with_fst [OF h4_4] with_fst [OF h4_5] surjective_pairing
        surjective_pairing, of None False]
  have a4: "fst (run_full_test 0 (scripted (take 7 happy_replies)) fresh) = Inr False"
    using r4 by simp
  have b4: "entered (snd (run_full_test 0 (scripted (take 7 happy_replies)) fresh)) = [1, 2, 3, 4, 5]"
    using r4 e by simp
  have c4: "fst (main None False 0 (scripted (take 7 happy_replies))) = 1"
    using r4 a4 by (simp add: fresh_def)
  have h5_1: "fst (step_1_create_public_reservation 0 (scripted (take 9 happy_replies)) fresh) =
            Inr True"
    by code_simp
  have h5_2: "fst (step_2_tenant_checkin (scripted (take 9 happy_replies)) (snd (step_1_create_public_reservation 0 (scripted (take 9 happy_replies)) fresh))) =
            Inr True"
    by code_simp
  have h5_3: "fst (step_3_validate_configuration (scripted (take 9 happy_replies)) (snd (step_2_tenant_checkin (scripted (take 9 happy_replies)) (snd (step_1_create_public_reservation 0 (scripted (take 9 happy_replies)) fresh))))) =
            Inr True"
    by code_simp
  have h5_4: "fst (step_4_create_cheqd_did (scripted (take 9 happy_replies)) (snd (step_3_validate_configuration (scripted (take 9 happy_replies)) (snd (step_2_tenant_checkin (scripted (take 9 happy_replies)) (snd (step_1_create_public_reservation 0 (scripted (take 9 happy_replies)) fresh))))))) =
            Inr True"
    by code_simp
  have h5_5: "fst (step_5_assign_public_did (scripted (take 9 happy_replies)) (snd (step_4_create_cheqd_did (scripted (take 9 happy_replies)) (snd (step_3_validate_configuration (scripted (take 9 happy_replies)) (snd (step_2_tenant_checkin (scripted (take 9 happy_replies)) (snd (step_1_create_public_reservation 0 (scripted (take 9 happy_replies)) fresh))))))))) =
            Inr True"
    by code_simp
  have h5_6: "fst (step_6_validate_issuer_status (scripted (take 9 happy_replies)) (snd (step_5_assign_public_did (scripted (take 9 happy_replies)) (snd (step_4_create_cheqd_did (scripted (take 9 happy_replies)) (snd (step_3_validate_configuration (scripted (take 9 happy_replies)) (snd (step_2_tenant_checkin (scripted (take 9 happy_replies)) (snd (step_1_create_public_reservation 0 (scripted (take 9 happy_replies)) fresh))))))))))) =
            Inr False"
    by code_simp
  note r5 = run_full_test_short_circuit
    [OF with_fst [OF h5_1] with_fst [OF h5_2] with_fst [OF h5_3]
        with_fst [OF h5_4] with_fst [OF h5_5] with_fst [OF h5_6]
        surjective_pairing, of None False]
  have a5: "fst (run_full_test 0 (scripted (take 9 happy_replies)) fresh) = Inr False"
    using r5 by simp
  have b5: "entered (snd (run_full_test 0 (scripted (take 9 happy_replies)) fresh)) = [1, 2, 3, 4, 5, 6]"
    using r5 e by simp
  have c5: "fst (main None False 0 (scripted (take 9 happy_replies))) = 1"
    using r5 a5 by (simp add: fresh_def)
  have h6_1: "fst (step_1_create_public_reservation 0 happy_service fresh) =
            Inr True"
    by code_simp
  have h6_2: "fst (step_2_tenant_checkin happy_service (snd (step_1_create_public_reservation 0 happy_service fresh))) =
            Inr True"
    by code_simp
  have h6_3: "fst (step_3_validate_configuration happy_service (snd (step_2_tenant_checkin happy_service (snd (step_1_create_public_reservation 0 happy_service fresh))))) =
            Inr True"
    by code_simp
  have h6_4: "fst (step_4_create_cheqd_did happy_service (snd (step_3_validate_configuration happy_service (snd (step_2_tenant_checkin happy_service (snd (step_1_create_public_reservation 0 happy_service fresh))))))) =
            Inr True"
    by code_simp
  have h6_5: "fst (step_5_assign_public_did happy_service (snd (step_4_create_cheqd_did happy_service (snd (step_3_validate_configuration happy_service (snd (step_2_tenant_checkin happy_service (snd (step_1_create_public_reservation 0 happy_service fresh))))))))) =
            Inr True"
    by code_simp
  have h6_6: "fst (step_6_validate_issuer_status happy_service (snd (step_5_assign_public_did happy_service (snd (step_4_create_cheqd_did happy_service (snd (step_3_validate_configuration happy_service (snd (step_2_tenant_checkin happy_service (snd (step_1_create_public_reservation 0 happy_service fresh))))))))))) =
            Inr True"
    by code_simp
  note r6 = run_full_test_short_circuit
    [OF with_fst [OF h6_1] with_fst [OF h6_2] with_fst [OF h6_3]
        with_fst [OF h6_4] with_fst [OF h6_5] with_fst [OF h6_6]
        surjective_pairing, of None False]
  have a6: "fst (run_full_test 0 happy_service fresh) = Inr True"
    using r6 by simp
  have b6: "entered (snd (run_full_test 0 happy_service fresh)) = [1, 2, 3, 4, 5, 6]"
    using r6 e by simp
  have c6: "fst (main None False 0 happy_service) = 0"
    using r6 a6 by (simp add: fresh_def)
  show ?thesis
    using a0 b0 c0 a1 b1 c1 a2 b2 c2 a3 b3 c3 a4 b4 c4 a5 b5 c5 a6 b6 c6 by simp
qed

text \<open>
  C9, as stated, fails: when the service is unreachable the summary has one line, for
  the step that failed, and none for the five steps that were not executed.
\<close>

theorem summary_counterexample:
  "report (snd (run_full_test 0 (always Fails) fresh)) = [''Create Public Reservation: FAIL'']"
  by code_simp

text \<open>
  C9, amended. The summary has one line for each step that was executed, in order: when
  step \<open>N\<close> is the first that does not report success, the lines are \<open>PASS\<close> for steps 1
  to \<open>N - 1\<close> and \<open>FAIL\<close> for step \<open>N\<close>, and the steps after \<open>N\<close> have no line; when the
  first five steps succeed there are six lines, the last one with the outcome of step 6.
\<close>

theorem summary_of_executed_steps:
  assumes s1: "step_1_create_public_reservation now srv t = (r1, t1)"
      and s2: "step_2_tenant_checkin srv t1 = (r2, t2)"
      and s3: "step_3_validate_configuration srv t2 = (r3, t3)"
      and s4: "step_4_create_cheqd_did srv t3 = (r4, t4)"
      and s5: "step_5_assign_public_did srv t4 = (r5, t5)"
      and s6: "step_6_validate_issuer_status srv t5 = (r6, t6)"
      and run: "run_full_test now srv t = (res, t')"
  shows "(r1 \<noteq> Inr True \<longrightarrow>
            report t' = report t @ [''Create Public Reservation: FAIL'']) \<and>
         (r1 = Inr True \<and> r2 \<noteq> Inr True \<longrightarrow>
            report t' = report t @ [''Create Public Reservation: PASS'', ''Tenant Check-In: FAIL'']) \<and>
         (r1 = Inr True \<and> r2 = Inr True \<and> r3 \<noteq> Inr True \<longrightarrow>
            report t' = report t @ [''Create Public Reservation: PASS'', ''Tenant Check-In: PASS'',
                                    ''Validate Configuration: FAIL'']) \<and>
         (r1 = Inr True \<and> r2 = Inr True \<and> r3 = Inr True \<and> r4 \<noteq> Inr True \<longrightarrow>
            report t' = report t @ [''Create Public Reservation: PASS'', ''Tenant Check-In: PASS'',
                                    ''Validate Configuration: PASS'', ''Create cheqd DID: FAIL'']) \<and>
         (r1 = Inr True \<and> r2 = Inr True \<and> r3 = Inr True \<and> r4 = Inr True \<and> r5 \<noteq> Inr True \<longrightarrow>
            report t' = report t @ [''Create Public Reservation: PASS'', ''Tenant Check-In: PASS'',
                                    ''Validate Configuration: PASS'', ''Create cheqd DID: PASS'',
                                    ''Assign Public DID: FAIL'']) \<and>
         (r1 = Inr True \<and> r2 = Inr True \<and> r3 = Inr True \<and> r4 = Inr True \<and> r5 = Inr True \<longrightarrow>
            report t' = report t @ [''Create Public Reservation: PASS'', ''Tenant Check-In: PASS'',
                                    ''Validate Configuration: PASS'', ''Create cheqd DID: PASS'',
                                    ''Assign Public DID: PASS'',
                                    ''Validate Issuer Status: '' @ (if r6 = Inr True then ''PASS'' else ''FAIL'')])"
proof -
  obtain b1 where r1: "r1 = Inr b1" and e1: "report t1 = report t"
    using step_1_frame [of now srv t] s1 by auto
  obtain b2 where r2: "r2 = Inr b2" and e2: "report t2 = report t1"
    using step_2_frame [of srv t1] s2 by auto
  obtain b3 where r3: "r3 = Inr b3" and e3: "report t3 = report t2"
    using step_3_frame [of srv t2] s3 by auto
  obtain b4 where r4: "r4 = Inr b4" and e4: "report t4 = report t3"
    using step_4_frame [of srv t3] s4 by auto
  obtain b5 where r5: "r5 = Inr b5" and e5: "report t5 = report t4"
    using step_5_frame [of srv t4] s5 by auto
  obtain b6 where r6: "r6 = Inr b6" and e6: "report t6 = report t5"
    using step_6_frame [of srv t5] s6 by auto
  note u = run_full_test_unfold [OF s1 [unfolded r1] s2 [unfolded r2] s3 [unfolded r3]
      s4 [unfolded r4] s5 [unfolded r5] s6 [unfolded r6]]
  show ?thesis
    using run u e1 e2 e3 e4 e5 e6 by (auto simp add: r1 r2 r3 r4 r5 r6 split: if_splits)
qed

theorem summary_of_executed_steps_witness:
  "report (snd (run_full_test 0 (always Fails) fresh)) =
     [''Create Public Reservation: FAIL''] \<and>
   report (snd (run_full_test 0 checkin_401_service fresh)) =
     [''Create Public Reservation: PASS'', ''Tenant Check-In: FAIL''] \<and>
   report (snd (run_full_test 0 (scripted (take 2 happy_replies)) fresh)) =
     [''Create Public Reservation: PASS'', ''Tenant Check-In: PASS'',
      ''Validate Configuration: FAIL''] \<and>
   report (snd (run_full_test 0 (scripted (take 4 happy_replies)) fresh)) =
     [''Create Public Reservation: PASS'', ''Tenant Check-In: PASS'',
      ''Validate Configuration: PASS'', ''Create cheqd DID: FAIL''] \<and>
   report (snd (run_full_test 0 (scripted (take 7 happy_replies)) fresh)) =
     [''Create Public Reservation: PASS'', ''Tenant Check-In: PASS'',
      ''Validate Configuration: PASS'', ''Create cheqd DID: PASS'',
      ''Assign Public DID: FAIL''] \<and>
   report (snd (run_full_test 0 (scripted (take 9 happy_replies)) fresh)) =
     [''Create Public Reservation: PASS'', ''Tenant Check-In: PASS'',
      ''Validate Configuration: PASS'', ''Create cheqd DID: PASS'',
      ''Assign Public DID: PASS'', ''Validate Issuer Status: FAIL''] \<and>
   report (snd (run_full_test 0 happy_service fresh)) =
     [''Create Public Reservation: PASS'', ''Tenant Check-In: PASS'',
      ''Validate Configuration: PASS'', ''Create cheqd DID: PASS'',
      ''Assign Public DID: PASS'', ''Validate Issuer Status: PASS'']"
proof -
  have e: "entered fresh = []" "report fresh = []"
    by (simp_all add: fresh_def init_def)
  have h0_1: "fst (step_1_create_public_reservation 0 (always Fails) fresh) =
            Inr False"
    by code_simp
  note r0 = summary_of_executed_steps
    [OF with_fst [OF h0_1] surjective_pairing surjective_pairing
        surjective_pairing surjective_pairing surjective_pairing
        surjective_pairing]
  have a0: "report (snd (run_full_test 0 (always Fails) fresh)) =
     [''Create Public Reservation: FAIL'']"
    using r0 e by simp
  have h1_1: "fst (step_1_create_public_reservation 0 checkin_401_service fresh) =
            Inr True"
    by code_simp
  have h1_2: "fst (step_2_tenant_checkin checkin_401_service (snd (step_1_create_public_reservation 0 checkin_401_service fresh))) =
            Inr False"
    by code_simp
  note r1 = summary_of_executed_steps
    [OF with_fst [OF h1_1] with_fst [OF h1_2] surjective_pairing
        surjective_pairing surjective_pairing surjective_pairing
        surjective_pairing]
  have a1: "report (snd (run_full_test 0 checkin_401_service fresh)) =
     [''Create Public Reservation: PASS'', ''Tenant Check-In: FAIL'']"
    using r1 e by simp
  have h2_1: "fst (step_1_create_public_reservation 0 (scripted (take 2 happy_replies)) fresh) =
            Inr True"
    by code_simp
  have h2_2: "fst (step_2_tenant_checkin (scripted (take 2 happy_replies)) (snd (step_1_create_public_reservation 0 (scripted (take 2 happy_replies)) fresh))) =
            Inr True"
    by code_simp
  have h2_3: "fst (step_3_validate_configuration (scripted (take 2 happy_replies)) (snd (step_2_tenant_checkin (scripted (take 2 happy_replies)) (snd (step_1_create_public_reservation 0 (scripted (take 2 happy_replies)) fresh))))) =
            Inr False"
    by code_simp
  note r2 = summary_of_executed_steps
    [OF with_fst [OF h2_1] with_fst [OF h2_2] with_fst [OF h2_3]
        surjective_pairing surjective_pairing surjective_pairing
        surjective_pairing]
  have a2: "report (snd (run_full_test 0 (scripted (take 2 happy_replies)) fresh)) =
     [''Create Public Reservation: PASS'', ''Tenant Check-In: PASS'',
      ''Validate Configuration: FAIL'']"
    using r2 e by simp
  have h3_1: "fst (step_1_create_public_reservation 0 (scripted (take 4 happy_replies)) fresh) =
            Inr True"
    by code_simp
  have h3_2: "fst (step_2_tenant_checkin (scripted (take 4 happy_replies)) (snd (step_1_create_public_reservation 0 (scripted (take 4 happy_replies)) fresh))) =
            Inr True"
    by code_simp
  have h3_3: "fst (step_3_validate_configuration (scripted (take 4 happy_replies)) (snd (step_2_tenant_checkin (scripted (take 4 happy_replies)) (snd (step_1_create_public_reservation 0 (scripted (take 4 happy_replies)) fresh))))) =
            Inr True"
    by code_simp
  have h3_4: "fst (step_4_create_cheqd_did (scripted (take 4 happy_replies)) (snd (step_3_validate_configuration (scripted (take 4 happy_replies)) (snd (step_2_tenant_checkin (scripted (take 4 happy_replies)) (snd (step_1_create_public_reservation 0 (scripted (take 4 happy_replies)) fresh))))))) =
            Inr False"
    by code_simp
  note r3 = summary_of_executed_steps
    [OF with_fst [OF h3_1] with_fst [OF h3_2] with_fst [OF h3_3]
        with_fst [OF h3_4] surjective_pairing surjective_pairing
        surjective_pairing]
  have a3: "report (snd (run_full_test 0 (scripted (take 4 happy_replies)) fresh)) =
     [''Create Public Reservation: PASS'', ''Tenant Check-In: PASS'',
      ''Validate Configuration: PASS'', ''Create cheqd DID: FAIL'']"
    using r3 e by simp
  have h4_1: "fst (step_1_create_public_reservation 0 (scripted (take 7 happy_replies)) fresh) =
            Inr True"
    by code_simp
  have h4_2: "fst (step_2_tenant_checkin (scripted (take 7 happy_replies)) (snd (step_1_create_public_reservation 0 (scripted (take 7 happy_replies)) fresh))) =
            Inr True"
    by code_simp
  have h4_3: "fst (step_3_validate_configuration (scripted (take 7 happy_replies)) (snd (step_2_tenant_checkin (scripted (take 7 happy_replies)) (snd (step_1_create_public_reservation 0 (scripted (take 7 happy_replies)) fresh))))) =
            Inr True"
    by code_simp
  have h4_4: "fst (step_4_create_cheqd_did (scripted (take 7 happy_replies)) (snd (step_3_validate_configuration (scripted (take 7 happy_replies)) (snd (step_2_tenant_checkin (scripted (take 7 happy_replies)) (snd (step_1_create_public_reservation 0 (scripted (take 7 happy_replies)) fresh))))))) =
            Inr True"
    by code_simp
  have h4_5: "fst (step_5_assign_public_did (scripted (take 7 happy_replies)) (snd (step_4_create_cheqd_did (scripted (take 7 happy_replies)) (snd (step_3_validate_configuration (scripted (take 7 happy_replies)) (snd (step_2_tenant_checkin (scripted (take 7 happy_replies)) (snd (step_1_create_public_reservation 0 (scripted (take 7 happy_replies)) fresh))))))))) =
            Inr False"
    by code_simp
  note r4 = summary_of_executed_steps
    [OF with_fst [OF h4_1] with_fst [OF h4_2] with_fst [OF h4_3]
        with_fst [OF h4_4] with_fst [OF h4_5] surjective_pairing
        surjective_pairing]
  have a4: "report (snd (run_full_test 0 (scripted (take 7 happy_replies)) fresh)) =
     [''Create Public Reservation: PASS'', ''Tenant Check-In: PASS'',
      ''Validate Configuration: PASS'', ''Create cheqd DID: PASS'',
      ''Assign Public DID: FAIL'']"
    using r4 e by simp
  have h5_1: "fst (step_1_create_public_reservation 0 (scripted (take 9 happy_replies)) fresh) =
            Inr True"
    by code_simp
  have h5_2: "fst (step_2_tenant_checkin (scripted (take 9 happy_replies)) (snd (step_1_create_public_reservation 0 (scripted (take 9 happy_replies)) fresh))) =
            Inr True"
    by code_simp
  have h5_3: "fst (step_3_validate_configuration (scripted (take 9 happy_replies)) (snd (step_2_tenant_checkin (scripted (take 9 happy_replies)) (snd (step_1_create_public_reservation 0 (scripted (take 9 happy_replies)) fresh))))) =
            Inr True"
    by code_simp
  have h5_4: "fst (step_4_create_cheqd_did (scripted (take 9 happy_replies)) (snd (step_3_validate_configuration (scripted (take 9 happy_replies)) (snd (step_2_tenant_checkin (scripted (take 9 happy_replies)) (snd (step_1_create_public_reservation 0 (scripted (take 9 happy_replies)) fresh))))))) =
            Inr True"
    by code_simp
  have h5_5: "fst (step_5_assign_public_did (scripted (take 9 happy_replies)) (snd (step_4_create_cheqd_did (scripted (take 9 happy_replies)) (snd (step_3_validate_configuration (scripted (take 9 happy_replies)) (snd (step_2_tenant_checkin (scripted (take 9 happy_replies)) (snd (step_1_create_public_reservation 0 (scripted (take 9 happy_replies)) fresh))))))))) =
            Inr True"
    by code_simp
  have h5_6: "fst (step_6_validate_issuer_status (scripted (take 9 happy_replies)) (snd (step_5_assign_public_did (scripted (take 9 happy_replies)) (snd (step_4_create_cheqd_did (scripted (take 9 happy_replies)) (snd (step_3_validate_configuration (scripted (take 9 happy_replies)) (snd (step_2_tenant_checkin (scripted (take 9 happy_replies)) (snd (step_1_create_public_reservation 0 (scripted (take 9 happy_replies)) fresh))))))))))) =
            Inr False"
    by code_simp
  note r5 = summary_of_executed_steps
    [OF with_fst [OF h5_1] with_fst [OF h5_2] with_fst [OF h5_3]
        with_fst [OF h5_4] with_fst [OF h5_5] with_fst [OF h5_6]
        surjective_pairing]
  have a5: "report (snd (run_full_test 0 (scripted (take 9 happy_replies)) fresh)) =
     [''Create Public Reservation: PASS'', ''Tenant Check-In: PASS'',
      ''Validate Configuration: PASS'', ''Create cheqd DID: PASS'',
      ''Assign Public DID: PASS'', ''Validate Issuer Status: FAIL'']"
    using r5 e by simp
  have h6_1: "fst (step_1_create_public_reservation 0 happy_service fresh) =
            Inr True"
    by code_simp
  have h6_2: "fst (step_2_tenant_checkin happy_service (snd (step_1_create_public_reservation 0 happy_service fresh))) =
            Inr True"
    by code_simp
  have h6_3: "fst (step_3_validate_configuration happy_service (snd (step_2_tenant_checkin happy_service (snd (step_1_create_public_reservation 0 happy_service fresh))))) =
            Inr True"
    by code_simp
  have h6_4: "fst (step_4_create_cheqd_did happy_service (snd (step_3_validate_configuration happy_service (snd (step_2_tenant_checkin happy_service (snd (step_1_create_public_reservation 0 happy_service fresh))))))) =
            Inr True"
    by code_simp
  have h6_5: "fst (step_5_assign_public_did happy_service (snd (step_4_create_cheqd_did happy_service (snd (step_3_validate_configuration happy_service (snd (step_2_tenant_checkin happy_service (snd (step_1_create_public_reservation 0 happy_service fresh))))))))) =
            Inr True"
    by code_simp
  have h6_6: "fst (step_6_validate_issuer_status happy_service (snd (step_5_assign_public_did happy_service (snd (step_4_create_cheqd_did happy_service (snd (step_3_validate_configuration happy_service (snd (step_2_tenant_checkin happy_service (snd (step_1_create_public_reservation 0 happy_service fresh))))))))))) =
            Inr True"
    by code_simp
  note r6 = summary_of_executed_steps
    [OF with_fst [OF h6_1] with_fst [OF h6_2] with_fst [OF h6_3]
        with_fst [OF h6_4] with_fst [OF h6_5] with_fst [OF h6_6]
        surjective_pairing]
  have a6: "report (snd (run_full_test 0 happy_service fresh)) =
     [''Create Public Reservation: PASS'', ''Tenant Check-In: PASS'',
      ''Validate Configuration: PASS'', ''Create cheqd DID: PASS'',
      ''Assign Public DID: PASS'', ''Validate Issuer Status: PASS'']"
    using r6 e by simp
  show ?thesis
    using a0 a1 a2 a3 a4 a5 a6 by simp
qed

section \<open>The state a step requires and the state it writes\<close>

text \<open>
  C2, as stated, fails: step 3 run on a tester whose token is unset sends both of its
  requests, and reports success when the service answers them.
\<close>

theorem step_3_unset_token_counterexample:
  "tenant_token fresh = PNone \<and>
   fst (step_3_validate_configuration (always (ok (PDict []))) fresh) = Inr True \<and>
   map url (sent (snd (step_3_validate_configuration (always (ok (PDict []))) fresh))) =
     [[Lit ''http://localhost:8032'', Lit ''/tenant/config''],
      [Lit ''http://localhost:8032'', Lit ''/status/config'']]"
  by code_simp

text \<open>
  C2, amended. Step 2 run with \<open>reservation_id\<close> unset (or any value that is not
  truthy) reports failure without sending a request, and so does step 5 with
  \<open>created_did\<close>. Steps 3, 4 and 6 do not look at the token: with the token unset each
  of them still sends its first request, without an \<open>Authorization\<close> header.
\<close>

theorem guards_on_unset_fields:
  "(\<not> truthy (reservation_id t) \<longrightarrow>
      step_2_tenant_checkin srv t = (Inr False, t\<lparr>entered := entered t @ [2]\<rparr>)) \<and>
   (\<not> truthy (created_did t) \<longrightarrow>
      step_5_assign_public_did srv t = (Inr False, t\<lparr>entered := entered t @ [5]\<rparr>)) \<and>
   (\<not> truthy (tenant_token t) \<longrightarrow>
      (\<exists>rest. sent (snd (step_3_validate_configuration srv t)) =
         sent t @ \<lparr>verb_of = GET, url = [Lit (base_url t), Lit ''/tenant/config''],
                    json_body = None, authorization = None\<rparr> # rest) \<and>
      (\<exists>rest. sent (snd (step_4_create_cheqd_did srv t)) =
         sent t @ \<lparr>verb_of = POST, url = [Lit (base_url t), Lit ''/did/cheqd/create''],
                    json_body = Some (payloads_to_test ! 0), authorization = None\<rparr> # rest) \<and>
      sent (snd (step_6_validate_issuer_status srv t)) =
         sent t @ [\<lparr>verb_of = GET, url = [Lit (base_url t), Lit ''/wallet/did/public''],
                     json_body = None, authorization = None\<rparr>])"
proof -
  have a: "\<not> truthy (reservation_id t) \<longrightarrow>
      step_2_tenant_checkin srv t = (Inr False, t\<lparr>entered := entered t @ [2]\<rparr>)"
    by (simp add: step_2_cases)
  have b: "\<not> truthy (created_did t) \<longrightarrow>
      step_5_assign_public_did srv t = (Inr False, t\<lparr>entered := entered t @ [5]\<rparr>)"
    by (simp add: step_5_cases)
  have c: "\<not> truthy (tenant_token t) \<longrightarrow>
      (\<exists>rest. sent (snd (step_3_validate_configuration srv t)) =
         sent t @ \<lparr>verb_of = GET, url = [Lit (base_url t), Lit ''/tenant/config''],
                    json_body = None, authorization = None\<rparr> # rest)"
    by (simp add: step_3_cases request_of_def split: reply.splits)
  have d: "\<not> truthy (tenant_token t) \<longrightarrow>
      (\<exists>rest. sent (snd (step_4_create_cheqd_did srv t)) =
         sent t @ \<lparr>verb_of = POST, url = [Lit (base_url t), Lit ''/did/cheqd/create''],
                    json_body = Some (payloads_to_test ! 0), authorization = None\<rparr> # rest)"
    by (simp add: step_4_cases request_of_def Let_def split: option.splits)
  have e: "\<not> truthy (tenant_token t) \<longrightarrow>
      sent (snd (step_6_validate_issuer_status srv t)) =
         sent t @ [\<lparr>verb_of = GET, url = [Lit (base_url t), Lit ''/wallet/did/public''],
                     json_body = None, authorization = None\<rparr>]"
    by (simp add: step_6_cases request_of_def Let_def)
  show ?thesis
    using a b c d e by blast
qed

theorem guards_on_unset_fields_witness:
  "\<not> truthy (reservation_id fresh) \<and> \<not> truthy (created_did fresh) \<and> \<not> truthy (tenant_token fresh) \<and>
   fst (step_2_tenant_checkin (always (ok (PDict []))) fresh) = Inr False \<and>
   sent (snd (step_2_tenant_checkin (always (ok (PDict []))) fresh)) = [] \<and>
   fst (step_5_assign_public_did (always (ok (PDict []))) fresh) = Inr False \<and>
   sent (snd (step_5_assign_public_did (always (ok (PDict []))) fresh)) = [] \<and>
   sent (snd (step_6_validate_issuer_status (always (ok (PDict []))) fresh)) =
     [\<lparr>verb_of = GET, url = [Lit ''http://localhost:8032'', Lit ''/wallet/did/public''],
       json_body = None, authorization = None\<rparr>]"
proof -
  have f: "\<not> truthy (reservation_id fresh)" "\<not> truthy (created_did fresh)"
    "\<not> truthy (tenant_token fresh)" "sent fresh = []"
    "base_url fresh = ''http://localhost:8032''"
    by (simp_all add: fresh_def init_def rstrip_def)
  show ?thesis
    using guards_on_unset_fields [of fresh "always (ok (PDict []))"] f by simp
qed

text \<open>
  C8. Step 1 leaves the token and the created identifier as they were; step 2 leaves
  the reservation's identifier and password and the created identifier; step 4 leaves
  the reservation's identifier and password and the token; steps 3, 5 and 6 leave all
  of them. No step changes \<open>base_url\<close>, so that at the end of \<open>run_full_test\<close> and of
  \<open>main\<close> it is the value the constructor gave it.
\<close>

theorem fields_written_by_one_step:
  "(let t' = snd (step_1_create_public_reservation now srv t)
    in tenant_token t' = tenant_token t \<and> created_did t' = created_did t \<and>
       base_url t' = base_url t) \<and>
   (let t' = snd (step_2_tenant_checkin srv t)
    in reservation_id t' = reservation_id t \<and> reservation_pwd t' = reservation_pwd t \<and>
       created_did t' = created_did t \<and> base_url t' = base_url t) \<and>
   (let t' = snd (step_3_validate_configuration srv t)
    in reservation_id t' = reservation_id t \<and> reservation_pwd t' = reservation_pwd t \<and>
       tenant_token t' = tenant_token t \<and> created_did t' = created_did t \<and>
       base_url t' = base_url t) \<and>
   (let t' = snd (step_4_create_cheqd_did srv t)
    in reservation_id t' = reservation_id t \<and> reservation_pwd t' = reservation_pwd t \<and>
       tenant_token t' = tenant_token t \<and> base_url t' = base_url t) \<and>
   (let t' = snd (step_5_assign_public_did srv t)
    in reservation_id t' = reservation_id t \<and> reservation_pwd t' = reservation_pwd t \<and>
       tenant_token t' = tenant_token t \<and> created_did t' = created_did t \<and>
       base_url t' = base_url t) \<and>
   (let t' = snd (step_6_validate_issuer_status srv t)
    in reservation_id t' = reservation_id t \<and> reservation_pwd t' = reservation_pwd t \<and>
       tenant_token t' = tenant_token t \<and> created_did t' = created_did t \<and>
       base_url t' = base_url t) \<and>
   base_url (snd (run_full_test now srv t)) = base_url t \<and>
   base_url (snd (main arg_base_url arg_debug now srv)) =
     base_url (init (case arg_base_url of None \<Rightarrow> ''http://localhost:8032'' | Some b \<Rightarrow> b)
                    arg_debug)"
proof -
  have m: "base_url (snd (main arg_base_url arg_debug now srv)) =
     base_url (init (case arg_base_url of None \<Rightarrow> ''http://localhost:8032'' | Some b \<Rightarrow> b)
                    arg_debug)"
    by (simp only: main_snd run_full_test_base_url)
  show ?thesis
    using step_1_frame [of now srv t] step_2_frame [of srv t] step_3_frame [of srv t]
      step_4_frame [of srv t] step_5_frame [of srv t] step_6_frame [of srv t]
      run_full_test_base_url [of now srv t] m
    by (auto simp add: Let_def)
qed

theorem fields_written_by_one_step_witness:
  "reservation_id (snd (step_1_create_public_reservation 0 happy_service fresh)) = PStr ''res-1'' \<and>
   reservation_pwd (snd (step_1_create_public_reservation 0 happy_service fresh)) = PStr ''pwd-1'' \<and>
   tenant_token (snd (step_1_create_public_reservation 0 happy_service fresh)) = PNone \<and>
   created_did (snd (step_1_create_public_reservation 0 happy_service fresh)) = PNone \<and>
   tenant_token (snd (step_2_tenant_checkin (always (ok (PDict [(''token'', PStr ''jwt'')]))) reserved)) =
     PStr ''jwt'' \<and>
   reservation_id (snd (step_2_tenant_checkin (always (ok (PDict [(''token'', PStr ''jwt'')]))) reserved)) =
     PStr ''res-1'' \<and>
   created_did (snd (step_4_create_cheqd_did
       (always (ok (PDict [(''did'', PStr ''did:cheqd:testnet:1'')]))) checked_in)) =
     PStr ''did:cheqd:testnet:1'' \<and>
   tenant_token (snd (step_4_create_cheqd_did
       (always (ok (PDict [(''did'', PStr ''did:cheqd:testnet:1'')]))) checked_in)) = PStr ''jwt'' \<and>
   base_url (snd (run_full_test 0 happy_service fresh)) = ''http://localhost:8032'' \<and>
   base_url (snd (main (Some ''http://traction.example/'') True 0 happy_service)) =
     ''http://traction.example''"
proof -
  have w: "reservation_id (snd (step_1_create_public_reservation 0 happy_service fresh)) = PStr ''res-1''"
    "reservation_pwd (snd (step_1_create_public_reservation 0 happy_service fresh)) = PStr ''pwd-1''"
    "tenant_token (snd (step_2_tenant_checkin (always (ok (PDict [(''token'', PStr ''jwt'')]))) reserved)) =
     PStr ''jwt''"
    "created_did (snd (step_4_create_cheqd_did
       (always (ok (PDict [(''did'', PStr ''did:cheqd:testnet:1'')]))) checked_in)) =
     PStr ''did:cheqd:testnet:1''"
    by code_simp+
  have f: "tenant_token fresh = PNone" "created_did fresh = PNone"
    "base_url fresh = ''http://localhost:8032''"
    "reservation_id reserved = PStr ''res-1''" "tenant_token checked_in = PStr ''jwt''"
    "base_url (init ''http://traction.example/'' True) = ''http://traction.example''"
    by (simp_all add: checked_in_def reserved_def fresh_def init_def rstrip_def)
  show ?thesis
    using fields_written_by_one_step [of 0 happy_service fresh "Some ''http://traction.example/''" True]
      fields_written_by_one_step [of 0 "always (ok (PDict [(''token'', PStr ''jwt'')]))" reserved]
      fields_written_by_one_step
        [of 0 "always (ok (PDict [(''did'', PStr ''did:cheqd:testnet:1'')]))" checked_in]
      w f
    by (simp add: Let_def)
qed

section \<open>Steps 1 and 2\<close>

text \<open>
  C6, as stated, fails: a response with status 200 whose body is an object with neither
  \<open>reservation_id\<close> nor \<open>reservation_pwd\<close> makes step 1 report success.
\<close>

theorem step_1_missing_fields_counterexample:
  "fst (step_1_create_public_reservation 0 (always (ok (PDict []))) fresh) = Inr True"
  by code_simp

text \<open>
  C6, amended. A response to step 1 with a status other than 200 makes the step report
  failure. A response with status 200 whose body is an object without \<open>reservation_id\<close>
  makes step 1 report success with \<open>reservation_id\<close> left \<open>None\<close>; it is step 2 that
  then reports failure, without sending a request.
\<close>

theorem step_1_status_and_missing_id:
  assumes "srv (sent t)
             (request_of POST [Lit ''/multitenancy/reservations''] (Some (step_1_payload now)) False t) =
           Returns r"
  shows "(status_code r \<noteq> 200 \<longrightarrow>
            fst (step_1_create_public_reservation now srv t) = Inr False) \<and>
         (status_code r = 200 \<and> content r = Some (PDict kvs) \<and>
          map_of kvs ''reservation_id'' = None \<longrightarrow>
            fst (step_1_create_public_reservation now srv t) = Inr True \<and>
            reservation_id (snd (step_1_create_public_reservation now srv t)) = PNone \<and>
            step_2_tenant_checkin srv (snd (step_1_create_public_reservation now srv t)) =
              (Inr False,
               (snd (step_1_create_public_reservation now srv t))\<lparr>entered := entered t @ [1, 2]\<rparr>))"
  using assms by (simp add: step_1_cases step_2_cases Let_def)

theorem step_1_status_and_missing_id_witness:
  "fst (step_1_create_public_reservation 0 (always (status 500)) fresh) = Inr False \<and>
   fst (step_1_create_public_reservation 0 (always (ok (PDict []))) fresh) = Inr True \<and>
   reservation_id (snd (step_1_create_public_reservation 0 (always (ok (PDict []))) fresh)) = PNone \<and>
   fst (step_2_tenant_checkin (always (ok (PDict [])))
          (snd (step_1_create_public_reservation 0 (always (ok (PDict []))) fresh))) = Inr False \<and>
   sent (snd (step_2_tenant_checkin (always (ok (PDict [])))
          (snd (step_1_create_public_reservation 0 (always (ok (PDict []))) fresh)))) =
     sent (snd (step_1_create_public_reservation 0 (always (ok (PDict []))) fresh))"
proof -
  have a: "always (status 500) (sent fresh)
             (request_of POST [Lit ''/multitenancy/reservations''] (Some (step_1_payload 0)) False fresh) =
           Returns \<lparr>status_code = 500, content = None\<rparr>"
    by (simp add: always_def status_def)
  have b: "always (ok (PDict [])) (sent fresh)
             (request_of POST [Lit ''/multitenancy/reservations''] (Some (step_1_payload 0)) False fresh) =
           Returns \<lparr>status_code = 200, content = Some (PDict [])\<rparr>"
    by (simp add: always_def ok_def)
  show ?thesis
    using step_1_status_and_missing_id [where srv = "always (status 500)" and t = fresh and now = 0, OF a]
      step_1_status_and_missing_id [where srv = "always (ok (PDict []))" and t = fresh and now = 0
        and kvs = "[]", OF b]
    by simp
qed

text \<open>
  C7, as stated, fails: a response with status 200 whose \<open>token\<close> field is present
  and holds the empty string makes step 2 report failure.
\<close>

theorem step_2_empty_token_counterexample:
  "fst (step_2_tenant_checkin (always (ok (PDict [(''token'', PStr '''')]))) reserved) = Inr False"
  by code_simp

text \<open>
  C7, amended. When the response to step 2 has status 200 and an object as its body:
  without a \<open>token\<close> field the step reports failure; with one, the field's value is
  stored, and the step reports success exactly when that value is truthy and has a
  length (a string, list or object that is not empty).
\<close>

theorem step_2_token:
  assumes "truthy (reservation_id t)"
      and "srv (sent t)
             (request_of POST
                [Lit ''/multitenancy/reservations/'', Fmt (reservation_id t), Lit ''/check-in'']
                (Some (PDict [(''reservation_pwd'', reservation_pwd t)])) False t) =
           Returns r"
      and "status_code r = 200"
      and "content r = Some (PDict kvs)"
  shows "(map_of kvs ''token'' = None \<longrightarrow> fst (step_2_tenant_checkin srv t) = Inr False) \<and>
         (\<forall>tok. map_of kvs ''token'' = Some tok \<longrightarrow>
            tenant_token (snd (step_2_tenant_checkin srv t)) = tok \<and>
            fst (step_2_tenant_checkin srv t) = Inr (truthy tok \<and> (\<exists>n. py_len tok = Inr n)))"
proof -
  have sized: "(py_len v \<noteq> Inl TypeError) = (\<exists>n. py_len v = Inr n)" for v
    by (cases v) simp_all
  show ?thesis
    using assms by (simp add: step_2_cases Let_def sized)
qed

theorem step_2_token_witness:
  "fst (step_2_tenant_checkin (always (ok (PDict []))) reserved) = Inr False \<and>
   fst (step_2_tenant_checkin (always (ok (PDict [(''token'', PStr ''jwt'')]))) reserved) = Inr True \<and>
   tenant_token (snd (step_2_tenant_checkin (always (ok (PDict [(''token'', PStr ''jwt'')]))) reserved)) = PStr ''jwt'' \<and>
   fst (step_2_tenant_checkin (always (ok (PDict [(''token'', PInt 7)]))) reserved) = Inr False \<and>
   tenant_token (snd (step_2_tenant_checkin (always (ok (PDict [(''token'', PInt 7)]))) reserved)) = PInt 7"
proof -
  have t: "truthy (reservation_id reserved)"
    by (simp add: reserved_def)
  have a: "always (ok body) (sent reserved)
             (request_of POST
                [Lit ''/multitenancy/reservations/'', Fmt (reservation_id reserved), Lit ''/check-in'']
                (Some (PDict [(''reservation_pwd'', reservation_pwd reserved)])) False reserved) =
           Returns \<lparr>status_code = 200, content = Some body\<rparr>" for body
    by (simp add: always_def ok_def)
  show ?thesis
    using step_2_token [where srv = "always (ok (PDict []))" and kvs = "[]", OF t a]
      step_2_token [where srv = "always (ok (PDict [(''token'', PStr ''jwt'')]))"
        and kvs = "[(''token'', PStr ''jwt'')]", OF t a]
      step_2_token [where srv = "always (ok (PDict [(''token'', PInt 7)]))"
        and kvs = "[(''token'', PInt 7)]", OF t a]
    by simp
qed

section \<open>Step 3\<close>

text \<open>
  C4. In step 3, when the call for the tenant configuration raises, returns a status
  other than 200, or returns a body that cannot be decoded, the step reports failure.
  When it returns status 200 with a decodable body, the step sends the call for the
  server configuration and reports success whatever that call does: the second block
  returns \<open>True\<close> from every tester, and inspecting a decoded server configuration never
  yields \<open>False\<close>, whether or not the plugin configuration is there.
\<close>

theorem step_3_tenant_required_server_advisory:
  "let a = request_of GET [Lit ''/tenant/config''] None True t;
       b = request_of GET [Lit ''/status/config''] None True t;
       out = step_3_validate_configuration srv t
   in (srv (sent t) a = Fails \<longrightarrow> fst out = Inr False) \<and>
      (\<forall>r. srv (sent t) a = Returns r \<and> status_code r \<noteq> 200 \<longrightarrow> fst out = Inr False) \<and>
      (\<forall>r. srv (sent t) a = Returns r \<and> status_code r = 200 \<and> content r = None \<longrightarrow>
           fst out = Inr False) \<and>
      (\<forall>r. srv (sent t) a = Returns r \<and> status_code r = 200 \<and> content r \<noteq> None \<longrightarrow>
           fst out = Inr True \<and> sent (snd out) = sent t @ [a, b]) \<and>
      (\<forall>u. fst (step_3_server_config srv u) = Inr True) \<and>
      (\<forall>server_config. step_3_inspect server_config \<noteq> Inr False)"
  by (auto simp add: Let_def step_3_cases step_3_server_config_cases step_3_inspect_not_False)

theorem step_3_tenant_required_server_advisory_witness:
  "fst (step_3_validate_configuration (always Fails) checked_in) = Inr False \<and>
   fst (step_3_validate_configuration (always (status 500)) checked_in) = Inr False \<and>
   fst (step_3_validate_configuration (always (status 200)) checked_in) = Inr False \<and>
   fst (step_3_validate_configuration (scripted [ok (PDict []), Fails]) checked_in) = Inr True \<and>
   fst (step_3_validate_configuration (scripted [ok (PDict []), status 503]) checked_in) = Inr True \<and>
   fst (step_3_validate_configuration
          (scripted [ok (PDict []), ok (PDict [(''config'', PDict [])])]) checked_in) = Inr True \<and>
   step_3_inspect (PDict [(''config'', PDict [])]) = Inr True \<and>
   step_3_inspect (PList []) = Inl AttributeError"
proof -
  have a: "step_3_inspect (PDict [(''config'', PDict [])]) = Inr True"
    "step_3_inspect (PList []) = Inl AttributeError"
    by (simp_all add: step_3_inspect_def and_then_def)
  show ?thesis
    using step_3_tenant_required_server_advisory [of checked_in "always Fails"]
      step_3_tenant_required_server_advisory [of checked_in "always (status 500)"]
      step_3_tenant_required_server_advisory [of checked_in "always (status 200)"]
      step_3_tenant_required_server_advisory [of checked_in "scripted [ok (PDict []), Fails]"]
      step_3_tenant_required_server_advisory [of checked_in "scripted [ok (PDict []), status 503]"]
      step_3_tenant_required_server_advisory
        [of checked_in "scripted [ok (PDict []), ok (PDict [(''config'', PDict [])])]"]
      a
    by (simp add: Let_def always_def scripted_def status_def ok_def checked_in_def reserved_def
          fresh_def init_def)
qed

section \<open>Step 4\<close>

text \<open>
  C3. Step 4 sends the three payloads in the order of \<open>payloads_to_test\<close>. At the
  first reply that carries an extractable identifier (HTTP 200 with an identifier at
  \<open>did\<close> or else at \<open>result.did\<close>; \<open>did_of_extractable\<close> shows that this is what the
  code extracts) it stores that identifier, reports success and sends nothing more; when
  none of the three replies carries one, it reports failure after the third request.
\<close>

theorem step_4_variants_in_order:
  "step_4_create_cheqd_did srv t =
     (let r1 = request_of POST [Lit ''/did/cheqd/create''] (Some (payloads_to_test ! 0)) True t;
          r2 = request_of POST [Lit ''/did/cheqd/create''] (Some (payloads_to_test ! 1)) True t;
          r3 = request_of POST [Lit ''/did/cheqd/create''] (Some (payloads_to_test ! 2)) True t;
          t0 = t\<lparr>entered := entered t @ [4]\<rparr>
      in case extractable_identifier (srv (sent t) r1) of
           Some d \<Rightarrow> (Inr True, t0\<lparr>sent := sent t @ [r1], created_did := d\<rparr>)
         | None \<Rightarrow>
             (case extractable_identifier (srv (sent t @ [r1]) r2) of
                Some d \<Rightarrow> (Inr True, t0\<lparr>sent := sent t @ [r1, r2], created_did := d\<rparr>)
              | None \<Rightarrow>
                  (case extractable_identifier (srv (sent t @ [r1, r2]) r3) of
                     Some d \<Rightarrow> (Inr True, t0\<lparr>sent := sent t @ [r1, r2, r3], created_did := d\<rparr>)
                   | None \<Rightarrow> (Inr False, t0\<lparr>sent := sent t @ [r1, r2, r3]\<rparr>))))"
  by (rule step_4_cases)

theorem step_4_variants_in_order_witness:
  "fst (step_4_create_cheqd_did
          (scripted [status 500, status 500, ok (PDict [(''did'', PStr ''did:cheqd:testnet:1'')])])
          checked_in) = Inr True \<and>
   created_did (snd (step_4_create_cheqd_did
          (scripted [status 500, status 500, ok (PDict [(''did'', PStr ''did:cheqd:testnet:1'')])])
          checked_in)) = PStr ''did:cheqd:testnet:1'' \<and>
   map json_body (sent (snd (step_4_create_cheqd_did
          (scripted [status 500, status 500, ok (PDict [(''did'', PStr ''did:cheqd:testnet:1'')])])
          checked_in))) = map Some payloads_to_test \<and>
   fst (step_4_create_cheqd_did
          (scripted [ok (PDict [(''did'', PStr ''''),
                                (''result'', PDict [(''did'', PStr ''did:cheqd:testnet:2'')])])])
          checked_in) = Inr True \<and>
   created_did (snd (step_4_create_cheqd_did
          (scripted [ok (PDict [(''did'', PStr ''''),
                                (''result'', PDict [(''did'', PStr ''did:cheqd:testnet:2'')])])])
          checked_in)) = PStr ''did:cheqd:testnet:2'' \<and>
   length (sent (snd (step_4_create_cheqd_did
          (scripted [ok (PDict [(''did'', PStr ''''),
                                (''result'', PDict [(''did'', PStr ''did:cheqd:testnet:2'')])])])
          checked_in))) = 1"
  using step_4_variants_in_order
          [of "scripted [status 500, status 500, ok (PDict [(''did'', PStr ''did:cheqd:testnet:1'')])]"
              checked_in]
        step_4_variants_in_order
          [of "scripted [ok (PDict [(''did'', PStr ''''),
                                (''result'', PDict [(''did'', PStr ''did:cheqd:testnet:2'')])])]"
              checked_in]
  by (simp add: scripted_def status_def ok_def extractable_identifier_def nested_identifier_def
        checked_in_def reserved_def fresh_def init_def request_of_def payloads_to_test_def)

text \<open>
  C10. A transport exception on the request of one payload is caught within the body
  of the loop for that payload, which ends without a \<open>return\<close> and lets the loop go on.
  Step 4 always returns a boolean: no exception leaves it. When the first request meets
  a transport exception the second is still sent, and when the second meets one (the
  first not having yielded an identifier) the third is still sent. The step reports
  failure only with all three requests sent and none of the replies carrying an
  identifier; in particular it does when all three meet a transport exception.
\<close>

theorem step_4_transport_exceptions:
  "let r1 = request_of POST [Lit ''/did/cheqd/create''] (Some (payloads_to_test ! 0)) True t;
       r2 = request_of POST [Lit ''/did/cheqd/create''] (Some (payloads_to_test ! 1)) True t;
       r3 = request_of POST [Lit ''/did/cheqd/create''] (Some (payloads_to_test ! 2)) True t;
       out = step_4_create_cheqd_did srv t
   in (\<forall>p u. srv (sent u) (request_of POST [Lit ''/did/cheqd/create''] (Some p) True u) = Fails \<longrightarrow>
             step_4_try_payload srv p u =
               (Inr None,
                u\<lparr>sent := sent u @ [request_of POST [Lit ''/did/cheqd/create''] (Some p) True u]\<rparr>)) \<and>
      (\<exists>b. fst out = Inr b) \<and>
      (srv (sent t) r1 = Fails \<longrightarrow> (\<exists>rest. sent (snd out) = sent t @ r1 # r2 # rest)) \<and>
      (extractable_identifier (srv (sent t) r1) = None \<and> srv (sent t @ [r1]) r2 = Fails \<longrightarrow>
         sent (snd out) = sent t @ [r1, r2, r3]) \<and>
      (fst out = Inr False \<longrightarrow>
         sent (snd out) = sent t @ [r1, r2, r3] \<and>
         extractable_identifier (srv (sent t) r1) = None \<and>
         extractable_identifier (srv (sent t @ [r1]) r2) = None \<and>
         extractable_identifier (srv (sent t @ [r1, r2]) r3) = None) \<and>
      (srv (sent t) r1 = Fails \<and> srv (sent t @ [r1]) r2 = Fails \<and>
       srv (sent t @ [r1, r2]) r3 = Fails \<longrightarrow>
         out = (Inr False, t\<lparr>entered := entered t @ [4], sent := sent t @ [r1, r2, r3]\<rparr>))"
  by (auto simp add: step_4_cases step_4_try_payload_cases Let_def extractable_identifier_def
           split: option.splits)

theorem step_4_transport_exceptions_witness:
  "fst (step_4_create_cheqd_did (always Fails) checked_in) = Inr False \<and>
   map json_body (sent (snd (step_4_create_cheqd_did (always Fails) checked_in))) =
     map Some payloads_to_test \<and>
   fst (step_4_create_cheqd_did
          (scripted [Fails, ok (PDict [(''did'', PStr ''did:cheqd:testnet:1'')])]) checked_in) = Inr True \<and>
   map json_body (sent (snd (step_4_create_cheqd_did
          (scripted [Fails, ok (PDict [(''did'', PStr ''did:cheqd:testnet:1'')])]) checked_in))) =
     map Some (take 2 payloads_to_test)"
proof -
  have a: "fst (step_4_create_cheqd_did
          (scripted [Fails, ok (PDict [(''did'', PStr ''did:cheqd:testnet:1'')])]) checked_in) = Inr True"
    by code_simp
  have b: "length (sent (snd (step_4_create_cheqd_did
          (scripted [Fails, ok (PDict [(''did'', PStr ''did:cheqd:testnet:1'')])]) checked_in))) = 2"
    by code_simp
  show ?thesis
    using step_4_transport_exceptions [of checked_in "always Fails"]
      step_4_transport_exceptions
        [of checked_in "scripted [Fails, ok (PDict [(''did'', PStr ''did:cheqd:testnet:1'')])]"]
      a b
    by (auto simp add: Let_def always_def scripted_def checked_in_def reserved_def fresh_def init_def
          request_of_def payloads_to_test_def)
qed

section \<open>Step 5\<close>

text \<open>
  C5. In step 5, when the assignment returns status 200 and the identifier found in
  the reply to the read that follows (\<open>result.did\<close>, \<open>None\<close> when absent) is not equal
  to \<open>created_did\<close> in the sense of Python's \<open>==\<close> (for two strings: they are different
  strings, see \<open>py_eq_strings\<close>), the step reports failure.
\<close>

theorem step_5_mismatch_fails:
  assumes "srv (sent t)
             (request_of POST [Lit ''/wallet/did/public?did='', Fmt (created_did t)]
                (Some (PDict [])) True t) = Returns written"
      and "status_code written = 200"
      and "srv (sent t @ [request_of POST [Lit ''/wallet/did/public?did='', Fmt (created_did t)]
                            (Some (PDict [])) True t])
             (request_of GET [Lit ''/wallet/did/public''] None True t) = Returns read"
      and "content read = Some public_did_data"
      and "py_get public_did_data ''result'' (PDict []) = Inr result"
      and "py_get result ''did'' PNone = Inr assigned_did"
      and "\<not> py_eq assigned_did (created_did t)"
  shows "fst (step_5_assign_public_did srv t) = Inr False"
  using assms by (simp add: step_5_cases Let_def)

theorem step_5_mismatch_fails_witness:
  "\<not> py_eq (PStr ''did:cheqd:testnet:2'') (created_did with_did) \<and>
   fst (step_5_assign_public_did
          (scripted [ok (PDict []),
                     ok (PDict [(''result'', PDict [(''did'', PStr ''did:cheqd:testnet:2'')])])])
          with_did) = Inr False"
proof -
  have c: "created_did with_did = PStr ''did:cheqd:testnet:1''" "sent with_did = []"
    by (simp_all add: with_did_def checked_in_def reserved_def fresh_def init_def)
  have w: "scripted [ok (PDict []),
                     ok (PDict [(''result'', PDict [(''did'', PStr ''did:cheqd:testnet:2'')])])]
             (sent with_did)
             (request_of POST [Lit ''/wallet/did/public?did='', Fmt (created_did with_did)]
                (Some (PDict [])) True with_did) =
           Returns \<lparr>status_code = 200, content = Some (PDict [])\<rparr>"
    by (simp add: scripted_def ok_def c)
  have r: "scripted [ok (PDict []),
                     ok (PDict [(''result'', PDict [(''did'', PStr ''did:cheqd:testnet:2'')])])]
             (sent with_did @ [request_of POST [Lit ''/wallet/did/public?did='', Fmt (created_did with_did)]
                            (Some (PDict [])) True with_did])
             (request_of GET [Lit ''/wallet/did/public''] None True with_did) =
           Returns \<lparr>status_code = 200,
                     content = Some (PDict [(''result'', PDict [(''did'', PStr ''did:cheqd:testnet:2'')])])\<rparr>"
    by (simp add: scripted_def ok_def c)
  have n: "\<not> py_eq (PStr ''did:cheqd:testnet:2'') (created_did with_did)"
    by (simp add: c)
  have g1: "py_get (PDict [(''result'', PDict [(''did'', PStr ''did:cheqd:testnet:2'')])]) ''result'' (PDict []) =
            Inr (PDict [(''did'', PStr ''did:cheqd:testnet:2'')])"
    by simp
  have g2: "py_get (PDict [(''did'', PStr ''did:cheqd:testnet:2'')]) ''did'' PNone =
            Inr (PStr ''did:cheqd:testnet:2'')"
    by simp
  show ?thesis
    using step_5_mismatch_fails
        [where srv = "scripted [ok (PDict []),
                     ok (PDict [(''result'', PDict [(''did'', PStr ''did:cheqd:testnet:2'')])])]"
           and t = with_did, OF w _ r _ g1 g2 n] n
    by simp
qed

end
